theory Spec2Isabelle
  imports Main "HOL-Library.Sublist"
begin

section \<open>Strings and numbers as the scripts print them\<close>

text \<open>
  Strings are lists of characters (one \<open>char\<close> per UTF-16 code unit of the script's
  string), instants are integer milliseconds since the epoch, and counters are integers.
  A template literal prints an integer in decimal.
\<close>

definition digit_char :: "nat \<Rightarrow> char" where
  "digit_char d = ''0123456789'' ! d"

fun show_nat :: "nat \<Rightarrow> string" where
  "show_nat n = (if n < 10 then [digit_char n] else show_nat (n div 10) @ [digit_char (n mod 10)])"

declare show_nat.simps [simp del]

definition show_int :: "int \<Rightarrow> string" where
  "show_int i = (if i < 0 then CHR ''-'' # show_nat (nat (- i)) else show_nat (nat i))"

text \<open>\<open>Array.prototype.join\<close> on an array of strings.\<close>

fun join :: "string \<Rightarrow> string list \<Rightarrow> string" where
  "join sep [] = []"
| "join sep [x] = x"
| "join sep (x # y # ys) = x @ sep @ join sep (y # ys)"

text \<open>\<open>Math.ceil(x / d)\<close> for an integer \<open>x\<close> and a positive integer \<open>d\<close>.\<close>

definition ceil_div :: "int \<Rightarrow> int \<Rightarrow> int" where
  "ceil_div x d = - ((- x) div d)"

section \<open>Rate limiter (middleware/rate-limiter.ts)\<close>

record RateLimitConfig =
  windowMs :: int
  maxRequests :: int
  skipSuccessfulRequests :: bool
  skipFailedRequests :: bool

record RateLimitResult =
  allowed :: bool
  remaining :: int
  resetTime :: int
  totalRequests :: int

text \<open>
  The argument of \<open>checkLimit\<close> is typed \<open>any\<close>; the limiter reads its \<open>ip\<close> and
  \<open>userAgent\<close> properties only. \<open>None\<close> is \<open>undefined\<close>.
\<close>

record Request =
  ip :: "string option"
  userAgent :: "string option"

record RequestInfo = Request +
  timestamp :: int

type_synonym RequestLog = "string \<rightharpoonup> RequestInfo list"

text \<open>The constructor: a falsy (zero) setting falls back to the default.\<close>

definition RateLimiter :: "RateLimitConfig \<Rightarrow> RateLimitConfig" where
  "RateLimiter config =
     \<lparr> windowMs = (if windowMs config = 0 then 15 * 60 * 1000 else windowMs config),
       maxRequests = (if maxRequests config = 0 then 100 else maxRequests config),
       skipSuccessfulRequests = skipSuccessfulRequests config,
       skipFailedRequests = skipFailedRequests config \<rparr>"

text \<open>A string property is truthy when it is present and not empty.\<close>

definition truthy :: "string option \<Rightarrow> bool" where
  "truthy s = (case s of None \<Rightarrow> False | Some v \<Rightarrow> v \<noteq> [])"

definition generateKey :: "'a Request_scheme \<Rightarrow> string" where
  "generateKey request =
     (if truthy (ip request) then ''ip:'' @ the (ip request)
      else if truthy (userAgent request) then ''ua:'' @ the (userAgent request)
      else ''anonymous'')"

definition checkLimit ::
  "RateLimitConfig \<Rightarrow> RequestLog \<Rightarrow> 'a Request_scheme \<Rightarrow> int \<Rightarrow> RateLimitResult \<times> RequestLog" where
  "checkLimit config requests request now =
     (let key = generateKey request;
          windowStart = now - windowMs config;
          userRequests = (case requests key of None \<Rightarrow> [] | Some rs \<Rightarrow> rs);
          userRequests = filter (\<lambda>req. timestamp req > windowStart) userRequests;
          allowed = (int (length userRequests) < maxRequests config);
          userRequests = (if allowed
            then userRequests @ [\<lparr> ip = ip request, userAgent = userAgent request, timestamp = now \<rparr>]
            else userRequests);
          requests = (if allowed then requests(key \<mapsto> userRequests) else requests)
      in (\<lparr> allowed = allowed,
             remaining = max 0 (maxRequests config - int (length userRequests)),
             resetTime = ceil_div (windowStart + windowMs config - now) 1000,
             totalRequests = int (length userRequests) \<rparr>,
          requests))"

text \<open>The minute sweep: every log is pruned and an empty log is removed.\<close>

definition cleanup :: "RateLimitConfig \<Rightarrow> RequestLog \<Rightarrow> int \<Rightarrow> RequestLog" where
  "cleanup config requests now =
     (\<lambda>key. case requests key of
        None \<Rightarrow> None
      | Some rs \<Rightarrow>
          (let validRequests = filter (\<lambda>req. timestamp req > now - windowMs config) rs
           in if length validRequests = 0 then None else Some validRequests))"

text \<open>
  A run of calls by one caller: the verdicts of \<open>checkLimit\<close> at the successive
  instants, each call working on the log the call before it left.
\<close>

fun calls :: "RateLimitConfig \<Rightarrow> RequestLog \<Rightarrow> 'a Request_scheme \<Rightarrow> int list \<Rightarrow> bool list" where
  "calls config requests request [] = []"
| "calls config requests request (now # later) =
     allowed (fst (checkLimit config requests request now)) #
     calls config (snd (checkLimit config requests request now)) request later"

section \<open>Values and errors (utils/error-handler.ts)\<close>

text \<open>
  Values typed \<open>any\<close>: tool arguments, schemas and error contexts. An object keeps its
  properties in insertion order.
\<close>

datatype jsval =
    JUndefined
  | JNull
  | JBool bool
  | JNum int
  | JStr string
  | JArr "jsval list"
  | JObj "(string \<times> jsval) list"

type_synonym jsobject = "(string \<times> jsval) list"

text \<open>\<open>obj[k] = v\<close>: an existing property keeps its place, a new one goes last.\<close>

fun obj_set :: "(string \<times> 'v) list \<Rightarrow> string \<Rightarrow> 'v \<Rightarrow> (string \<times> 'v) list" where
  "obj_set [] k v = [(k, v)]"
| "obj_set ((k', v') # rest) k v =
     (if k' = k then (k, v) # rest else (k', v') # obj_set rest k v)"

text \<open>
  Property order of an object: the keys that are array indices (canonical decimal
  numerals below \<open>2\<^sup>3\<^sup>2 - 1 = 4294967295\<close>) come first, in ascending numeric order, then
  the other keys in insertion order. An object is written as the list of its own
  properties in that order.
\<close>

definition is_digit :: "char \<Rightarrow> bool" where
  "is_digit c = (c \<in> set ''0123456789'')"

definition digit_value :: "char \<Rightarrow> nat" where
  "digit_value c = length (takeWhile (\<lambda>d. d \<noteq> c) ''0123456789'')"

definition digits_value :: "string \<Rightarrow> int" where
  "digits_value s = foldl (\<lambda>n c. 10 * n + int (digit_value c)) 0 s"

definition is_array_index :: "string \<Rightarrow> bool" where
  "is_array_index k =
     (k = ''0'' \<or>
      (k \<noteq> [] \<and> list_all is_digit k \<and> hd k \<noteq> CHR ''0'' \<and> digits_value k < 4294967295))"

definition Object_entries :: "(string \<times> 'v) list \<Rightarrow> (string \<times> 'v) list" where
  "Object_entries obj =
     sort_key (\<lambda>(k, v). digits_value k) (filter (\<lambda>(k, v). is_array_index k) obj) @
     filter (\<lambda>(k, v). \<not> is_array_index k) obj"

text \<open>
  \<open>{ ...a, ...b }\<close>: the properties of \<open>a\<close>, then those of \<open>b\<close>, are defined on a new
  object, whose own order is the property order; spreading \<open>undefined\<close> adds nothing.
\<close>

definition spread :: "jsobject option \<Rightarrow> jsobject option \<Rightarrow> jsobject" where
  "spread a b =
     Object_entries
       (foldl (\<lambda>obj (k, v). obj_set obj k v) []
          ((case a of None \<Rightarrow> [] | Some ps \<Rightarrow> ps) @ (case b of None \<Rightarrow> [] | Some ps \<Rightarrow> ps)))"

text \<open>
  A thrown value: \<open>JsError name message errors\<close> is an \<open>Error\<close> that is not a
  \<open>PortfolioError\<close> (\<open>errors\<close> is the property a \<open>ZodError\<close> carries), and
  \<open>PortfolioError message code statusCode context\<close> is an instance of that class
  or of a subclass.
\<close>

datatype js_error =
    JsError string string jsval
  | PortfolioError string string nat "jsobject option"

definition ValidationError :: "string \<Rightarrow> jsobject option \<Rightarrow> js_error" where
  "ValidationError msg ctx = PortfolioError msg ''VALIDATION_ERROR'' 400 ctx"

definition NotFoundError :: "string \<Rightarrow> string option \<Rightarrow> js_error" where
  "NotFoundError res ident =
     PortfolioError
       (if truthy ident then res @ '' not found with ID: '' @ the ident else res @ '' not found'')
       ''NOT_FOUND'' 404
       (Some [(''resource'', JStr res),
              (''id'', case ident of None \<Rightarrow> JUndefined | Some i \<Rightarrow> JStr i)])"

definition RateLimitError :: "int \<Rightarrow> js_error" where
  "RateLimitError secs =
     PortfolioError (''Rate limit exceeded. Try again in '' @ show_int secs @ '' seconds.'')
       ''RATE_LIMIT_EXCEEDED'' 429 (Some [(''resetTime'', JNum secs)])"

record ErrorDetails =
  message :: string
  code :: string
  statusCode :: nat
  err_timestamp :: string
  err_context :: "jsobject option"

definition handleError :: "js_error \<Rightarrow> jsobject option \<Rightarrow> string \<Rightarrow> ErrorDetails" where
  "handleError err ctx isoNow =
     (case err of
        PortfolioError msg c sc ectx \<Rightarrow>
          \<lparr> message = msg, code = c, statusCode = sc, err_timestamp = isoNow,
            err_context = Some (spread ectx ctx) \<rparr>
      | JsError nm msg errs \<Rightarrow>
          if nm = ''TypeError'' then
            \<lparr> message = ''Invalid input type'', code = ''TYPE_ERROR'', statusCode = 400,
              err_timestamp = isoNow, err_context = ctx \<rparr>
          else if nm = ''SyntaxError'' then
            \<lparr> message = ''Invalid syntax in request'', code = ''SYNTAX_ERROR'', statusCode = 400,
              err_timestamp = isoNow, err_context = ctx \<rparr>
          else if nm = ''ReferenceError'' then
            \<lparr> message = ''Reference error in processing'', code = ''REFERENCE_ERROR'',
              statusCode = 500, err_timestamp = isoNow, err_context = ctx \<rparr>
          else if nm = ''ZodError'' then
            \<lparr> message = ''Validation failed'', code = ''VALIDATION_ERROR'', statusCode = 400,
              err_timestamp = isoNow,
              err_context = Some (spread ctx (Some [(''validationErrors'', errs)])) \<rparr>
          else
            \<lparr> message = (if msg = [] then ''An unexpected error occurred'' else msg),
              code = ''INTERNAL_ERROR'', statusCode = 500,
              err_timestamp = isoNow, err_context = ctx \<rparr>)"

section \<open>Input validation (utils/validation.ts)\<close>

text \<open>
  The schema check itself is the zod library's. Its outcome on a schema and an input, that
  is \<open>jsonSchemaToZod(schema).safeParse(input)\<close> run inside the \<open>try\<close>, is a parameter
  of the model: the conversion or the parse throws (\<open>Some\<close> the message of an \<open>Error\<close>,
  \<open>None\<close> for another thrown value), or the parse succeeds with the parsed data, or it
  fails with zod's list of issues, each a path and a message.
\<close>

datatype path_elem = PKey string | PIndex nat

record ZodIssue =
  path :: "path_elem list"
  issue_message :: string

datatype zod_outcome =
    Throws "string option"
  | ParseSuccess jsval
  | ParseFailure "ZodIssue list"

record ValidationResult =
  valid :: bool
  errors :: "string list"
  data :: "jsval option"

record Tool =
  name :: string
  inputSchema :: "jsval option"

fun path_string :: "path_elem \<Rightarrow> string" where
  "path_string (PKey k) = k"
| "path_string (PIndex i) = show_nat i"

definition validateToolInput ::
  "(jsval \<Rightarrow> jsval \<Rightarrow> zod_outcome) \<Rightarrow> 'a Tool_scheme \<Rightarrow> jsval \<Rightarrow> ValidationResult" where
  "validateToolInput zod tool input =
     (case inputSchema tool of
        None \<Rightarrow> \<lparr> valid = True, errors = [], data = Some input \<rparr>
      | Some schema \<Rightarrow>
          (case zod schema input of
             ParseSuccess d \<Rightarrow> \<lparr> valid = True, errors = [], data = Some d \<rparr>
           | ParseFailure issues \<Rightarrow>
               \<lparr> valid = False,
                 errors = map (\<lambda>err. join ''.'' (map path_string (path err)) @ '': '' @
                                    issue_message err) issues,
                 data = None \<rparr>
           | Throws thrown \<Rightarrow>
               \<lparr> valid = False,
                 errors = [''Validation error: '' @
                           (case thrown of Some msg \<Rightarrow> msg | None \<Rightarrow> ''Unknown error'')],
                 data = None \<rparr>))"

section \<open>Tool registry and dispatch (index.ts)\<close>

definition portfolioToolNames :: "string list" where
  "portfolioToolNames =
     [''get_portfolio_overview'', ''get_portfolio_stats'', ''get_contact_info'',
      ''get_achievements'']"

definition skillToolNames :: "string list" where
  "skillToolNames =
     [''get_skills'', ''get_skill_by_id'', ''filter_skills'', ''get_skills_by_category'']"

definition projectToolNames :: "string list" where
  "projectToolNames =
     [''get_projects'', ''get_project_by_id'', ''filter_projects'', ''get_featured_projects'']"

definition analyticsToolNames :: "string list" where
  "analyticsToolNames = [''track_event'', ''get_analytics_stats'', ''get_popular_content'']"

definition exportToolNames :: "string list" where
  "exportToolNames = [''export_portfolio'', ''export_skills'', ''export_projects'']"

text \<open>The names of \<open>allTools\<close>, in the order \<open>initializeTools\<close> concatenates the lists.\<close>

definition allToolNames :: "string list" where
  "allToolNames =
     portfolioToolNames @ skillToolNames @ projectToolNames @ analyticsToolNames @
     exportToolNames"

definition initializeTools :: "Tool list \<Rightarrow> (string \<rightharpoonup> Tool)" where
  "initializeTools allTools = foldl (\<lambda>tools tool. tools(name tool \<mapsto> tool)) Map.empty allTools"

text \<open>The cases of the \<open>switch\<close> in \<open>executeTool\<close>.\<close>

definition executeToolCases :: "string list" where
  "executeToolCases =
     [''get_portfolio_overview'', ''get_portfolio_stats'', ''get_contact_info'',
      ''get_skills'', ''get_skill_by_id'', ''filter_skills'', ''get_skills_by_category'',
      ''get_projects'', ''get_project_by_id'', ''filter_projects'', ''get_featured_projects'',
      ''track_event'', ''get_analytics_stats'',
      ''export_portfolio'', ''export_skills'', ''export_projects'']"

text \<open>
  \<open>handler toolName args\<close> stands for the run of the found tool's handler: the value it
  returns or the error it throws.
\<close>

definition executeTool ::
  "(string \<Rightarrow> jsval \<Rightarrow> js_error + jsval) \<Rightarrow> string \<Rightarrow> jsval \<Rightarrow> js_error + jsval" where
  "executeTool handler toolName args =
     (if toolName \<in> set executeToolCases then handler toolName args
      else Inl (JsError ''Error'' (''Tool handler not implemented: '' @ toolName) JUndefined))"

record CallToolRequest = Request +
  params_name :: string
  params_arguments :: "jsval option"

text \<open>
  The error response carries the envelope as JSON text; \<open>ToolError\<close> holds the
  \<open>ErrorDetails\<close> the handler logs and the envelope it returns.
\<close>

record ErrorEnvelope =
  success :: bool
  error :: string
  envelope_code :: string
  envelope_timestamp :: string

datatype CallToolResult =
    ToolContent jsval
  | ToolError (handled: ErrorDetails) (envelope: ErrorEnvelope)

text \<open>
  The \<open>CallToolRequestSchema\<close> handler. \<open>now\<close> is the limiter's \<open>Date.now()\<close> and
  \<open>isoNow\<close> the \<open>new Date().toISOString()\<close> of the error path. The result comes
  with the limiter's log after the call.
\<close>

definition callTool ::
  "RateLimitConfig \<Rightarrow> (string \<rightharpoonup> Tool) \<Rightarrow> (jsval \<Rightarrow> jsval \<Rightarrow> zod_outcome) \<Rightarrow>
   (string \<Rightarrow> jsval \<Rightarrow> js_error + jsval) \<Rightarrow> RequestLog \<Rightarrow> CallToolRequest \<Rightarrow> int \<Rightarrow> string \<Rightarrow>
   CallToolResult \<times> RequestLog" where
  "callTool config tools zod handler requests request now isoNow =
     (let toolName = params_name request;
          args = params_arguments request;
          argsOrEmpty = (case args of None \<Rightarrow> JObj [] | Some a \<Rightarrow> a);
          (rateLimitResult, requests') = checkLimit config requests request now;
          outcome =
            (if \<not> allowed rateLimitResult then
               Inl (JsError ''Error''
                      (''Rate limit exceeded. Try again in '' @
                       show_int (resetTime rateLimitResult) @ '' seconds.'') JUndefined)
             else
               (case tools toolName of
                  None \<Rightarrow> Inl (JsError ''Error'' (''Unknown tool: '' @ toolName) JUndefined)
                | Some tool \<Rightarrow>
                    (let validationResult = validateToolInput zod tool argsOrEmpty
                     in if \<not> valid validationResult then
                          Inl (JsError ''Error''
                                 (''Invalid input: '' @ join '', '' (errors validationResult))
                                 JUndefined)
                        else executeTool handler toolName argsOrEmpty)))
      in (case outcome of
            Inr result \<Rightarrow> ToolContent result
          | Inl err \<Rightarrow>
              (let handledError =
                     handleError err
                       (Some [(''tool'', JStr toolName),
                              (''args'', case args of None \<Rightarrow> JUndefined | Some a \<Rightarrow> a),
                              (''timestamp'', JStr isoNow)])
                       isoNow
               in ToolError handledError
                    \<lparr> success = False, error = message handledError,
                      envelope_code = code handledError, envelope_timestamp = isoNow \<rparr>),
          requests'))"

section \<open>Analytics (tools/analytics-tools.ts)\<close>

text \<open>\<open>s.split(sep)\<close> for a one-character separator.\<close>

fun split :: "char \<Rightarrow> string \<Rightarrow> string list" where
  "split sep [] = [[]]"
| "split sep (c # cs) =
     (if c = sep then [] # split sep cs
      else (case split sep cs of [] \<Rightarrow> [[c]] | p # ps \<Rightarrow> (c # p) # ps))"

text \<open>\<open>substring(0, length / 2)\<close> truncates a fractional end index.\<close>

definition anonymizeIP :: "string \<Rightarrow> string" where
  "anonymizeIP addr =
     (let parts = split CHR ''.'' addr
      in if length parts = 4
         then parts ! 0 @ ''.'' @ parts ! 1 @ ''.'' @ parts ! 2 @ ''.0''
         else take (length addr div 2) addr @ ''xxxx'')"

record TrackEventArgs = Request +
  event_type :: string
  resource :: string
  resourceId :: "string option"
  referrer :: "string option"
  metadata :: "jsval option"

record AnalyticsEvent = TrackEventArgs +
  event_id :: string
  event_timestamp :: int

text \<open>
  The \<open>track_event\<close> handler on the event log: \<open>uuid\<close> is the fresh identifier and
  \<open>now\<close> the instant of the call. It returns the event's identifier and the log with
  the event appended. (The rolling statistics it also updates are a separate object that
  the log and the popular-content query never read.)
\<close>

definition trackEvent ::
  "TrackEventArgs \<Rightarrow> string \<Rightarrow> int \<Rightarrow> AnalyticsEvent list \<Rightarrow> string \<times> AnalyticsEvent list" where
  "trackEvent args uuid now analyticsEvents =
     (let event =
            \<lparr> ip = (if truthy (ip args) then Some (anonymizeIP (the (ip args))) else None),
              userAgent = userAgent args,
              event_type = event_type args,
              resource = resource args,
              resourceId = resourceId args,
              referrer = referrer args,
              metadata = metadata args,
              event_id = uuid,
              event_timestamp = now \<rparr>
      in (event_id event, analyticsEvents @ [event]))"

text \<open>
  The dotted-quad form of an IPv4 address: four decimal octets separated by dots. The
  handler makes no such test; \<open>anonymizeIP\<close> counts the parts only.
\<close>

definition is_octet :: "string \<Rightarrow> bool" where
  "is_octet p = (p \<noteq> [] \<and> length p \<le> 3 \<and> list_all is_digit p \<and> digits_value p \<le> 255)"

definition is_ipv4 :: "string \<Rightarrow> bool" where
  "is_ipv4 addr =
     (length (split CHR ''.'' addr) = 4 \<and> list_all is_octet (split CHR ''.'' addr))"

text \<open>
  The arguments of \<open>get_popular_content\<close>; the limit is a whole number, and a limit of
  zero, like an absent one, means ten.
\<close>

record PopularContentArgs =
  contentType :: "string option"
  limit :: "nat option"
  timeRange :: "string option"

definition startDate :: "string \<Rightarrow> int \<Rightarrow> int" where
  "startDate period now =
     (if period = ''day'' then now - 24 * 60 * 60 * 1000
      else if period = ''week'' then now - 7 * 24 * 60 * 60 * 1000
      else if period = ''month'' then now - 30 * 24 * 60 * 60 * 1000
      else if period = ''year'' then now - 365 * 24 * 60 * 60 * 1000
      else 0)"

text \<open>The events a popular-content query counts: inside the period, of the singular kind.\<close>

definition filteredEvents ::
  "AnalyticsEvent list \<Rightarrow> PopularContentArgs \<Rightarrow> int \<Rightarrow> AnalyticsEvent list" where
  "filteredEvents analyticsEvents args now =
     (let kind = (if truthy (contentType args) then the (contentType args) else ''projects'');
          period = (if truthy (timeRange args) then the (timeRange args) else ''month'')
      in filter (\<lambda>event. event_timestamp event \<ge> startDate period now \<and>
                         resource event = butlast kind)
           analyticsEvents)"

text \<open>
  The tally \<open>interactions\<close> is a plain object \<open>{}\<close>, so the read in
  \<open>interactions[id] = (interactions[id] || 0) + 1\<close> finds, for an identifier the tally
  does not own, the property of that name on \<open>Object.prototype\<close>. Such a property is a
  function (for \<open>__proto__\<close> the prototype object itself); it is truthy, and adding 1 to
  it concatenates its text with \<open>1\<close>. The assignment then creates an own property
  holding the string, except for \<open>__proto__\<close>, whose setter ignores a string. A count
  is therefore a number or a string.
\<close>

datatype tally_count = Number nat | Text string

fun is_number :: "tally_count \<Rightarrow> bool" where
  "is_number (Number n) = True"
| "is_number (Text s) = False"

fun number_of :: "tally_count \<Rightarrow> nat" where
  "number_of (Number n) = n"
| "number_of (Text s) = 0"

definition objectPrototypeMethods :: "string list" where
  "objectPrototypeMethods =
     [''constructor'', ''__defineGetter__'', ''__defineSetter__'', ''hasOwnProperty'',
      ''__lookupGetter__'', ''__lookupSetter__'', ''isPrototypeOf'', ''propertyIsEnumerable'',
      ''toString'', ''valueOf'', ''toLocaleString'']"

definition objectPrototypeNames :: "string list" where
  "objectPrototypeNames = ''__proto__'' # objectPrototypeMethods"

text \<open>The text of a built-in function, as the engine (V8) prints it.\<close>

definition function_text :: "string \<Rightarrow> string" where
  "function_text k =
     ''function '' @ (if k = ''constructor'' then ''Object'' else k) @ ''() { [native code] }''"

text \<open>One step of the tally, for an event with the identifier \<open>k\<close>.\<close>

definition count_interaction :: "(string \<times> tally_count) list \<Rightarrow> string \<Rightarrow> (string \<times> tally_count) list" where
  "count_interaction tally k =
     (case map_of tally k of
        Some (Number n) \<Rightarrow> obj_set tally k (Number (n + 1))
      | Some (Text s) \<Rightarrow> obj_set tally k (if s = [] then Number 1 else Text (s @ ''1''))
      | None \<Rightarrow>
          if k = ''__proto__'' then tally
          else if k \<in> set objectPrototypeMethods
          then obj_set tally k (Text (function_text k @ ''1''))
          else obj_set tally k (Number 1))"

definition countInteractions :: "AnalyticsEvent list \<Rightarrow> (string \<times> tally_count) list" where
  "countInteractions events =
     foldl (\<lambda>tally event.
              if truthy (resourceId event)
              then count_interaction tally (the (resourceId event))
              else tally)
       [] events"

record PopularItem =
  item_resourceId :: string
  interactions :: tally_count
  lastInteraction :: "int option"

text \<open>The identifiers the tally counts, one for each event that has one.\<close>

definition resourceIds :: "AnalyticsEvent list \<Rightarrow> string list" where
  "resourceIds events = map (\<lambda>event. the (resourceId event)) (filter (\<lambda>event. truthy (resourceId event)) events)"

definition lastInteractionOf :: "AnalyticsEvent list \<Rightarrow> string \<Rightarrow> int option" where
  "lastInteractionOf events rid =
     (case sort_key (\<lambda>e. - event_timestamp e) (filter (\<lambda>e. resourceId e = Some rid) events) of
        [] \<Rightarrow> None
      | e # _ \<Rightarrow> Some (event_timestamp e))"

text \<open>
  \<open>Array.prototype.sort\<close> with the comparator \<open>b - a\<close> on the counts. When every count
  is a number the comparator is consistent, and the sort, which is stable, orders the
  entries by count, descending. A string count makes \<open>b - a\<close> \<open>NaN\<close> for its pairs; the
  comparator is then not consistent in general and the language leaves the order to the
  engine's algorithm, for which \<open>engine\<close> stands.
\<close>

definition sortByCount ::
  "((string \<times> tally_count) list \<Rightarrow> (string \<times> tally_count) list) \<Rightarrow>
   (string \<times> tally_count) list \<Rightarrow> (string \<times> tally_count) list" where
  "sortByCount engine entries =
     (if list_all (\<lambda>(rid, c). is_number c) entries
      then sort_key (\<lambda>(rid, c). - int (number_of c)) entries
      else engine entries)"

text \<open>The \<open>popularItems\<close> of the \<open>get_popular_content\<close> handler.\<close>

definition popularItems ::
  "((string \<times> tally_count) list \<Rightarrow> (string \<times> tally_count) list) \<Rightarrow>
   AnalyticsEvent list \<Rightarrow> PopularContentArgs \<Rightarrow> int \<Rightarrow> PopularItem list" where
  "popularItems engine analyticsEvents args now =
     (let count = (case limit args of None \<Rightarrow> 10 | Some n \<Rightarrow> if n = 0 then 10 else n);
          events = filteredEvents analyticsEvents args now
      in map (\<lambda>(rid, c). \<lparr> item_resourceId = rid, interactions = c,
                            lastInteraction = lastInteractionOf events rid \<rparr>)
           (take count (sortByCount engine (Object_entries (countInteractions events)))))"

section \<open>Export (tools/export-tools.ts)\<close>

record Skill =
  skill_name :: string
  skill_category :: string
  skill_level :: string
  skill_proficiency :: int
  skill_description :: string

record Project =
  project_title :: string
  project_category :: string
  project_shortDescription :: string
  project_description :: string
  project_year :: int
  project_status :: string
  project_views :: int
  project_likes :: int

record ContactInfo =
  email :: string
  phone :: "string option"
  location :: string
  website :: string

text \<open>
  A portfolio object holds its skills, projects and contact by reference. The same
  record with the references followed is what a format function reads.
\<close>

record ('s, 'p, 'c) PortfolioOf =
  title :: string
  description :: string
  skills :: 's
  projects :: 'p
  contact :: 'c

type_synonym ref = nat
type_synonym Portfolio = "(ref, ref, ref) PortfolioOf"
type_synonym ExportData = "(Skill list, Project list, ContactInfo) PortfolioOf"

datatype heap_object =
    ContactObject ContactInfo
  | SkillArray "Skill list"
  | ProjectArray "Project list"
  | PortfolioObject Portfolio

type_synonym heap = "ref \<rightharpoonup> heap_object"

definition read_data :: "heap \<Rightarrow> Portfolio \<Rightarrow> ExportData option" where
  "read_data h p =
     (case (h (skills p), h (projects p), h (contact p)) of
        (Some (SkillArray ss), Some (ProjectArray ps), Some (ContactObject c)) \<Rightarrow>
          Some \<lparr> title = title p, description = description p,
                 skills = ss, projects = ps, contact = c \<rparr>
      | _ \<Rightarrow> None)"

definition dq :: string where
  "dq = [CHR 0x22]"

definition generateCSVExport :: "ExportData \<Rightarrow> string" where
  "generateCSVExport d =
     (let headers = [''Type'', ''Name'', ''Category'', ''Description'', ''Year'', ''Status''];
          rows = [join '','' headers] @
            map (\<lambda>skill. join '',''
                   [''Skill'', dq @ skill_name skill @ dq, skill_category skill,
                    dq @ skill_description skill @ dq, [], skill_level skill])
              (skills d) @
            map (\<lambda>project. join '',''
                   [''Project'', dq @ project_title project @ dq, project_category project,
                    dq @ project_shortDescription project @ dq,
                    show_int (project_year project), project_status project])
              (projects d)
      in join ''\<newline>'' rows)"

definition skill_xml :: "Skill \<Rightarrow> string" where
  "skill_xml skill =
     ''\<newline>    <skill>\<newline>'' @
     ''      <name>'' @ skill_name skill @ ''</name>\<newline>'' @
     ''      <category>'' @ skill_category skill @ ''</category>\<newline>'' @
     ''      <level>'' @ skill_level skill @ ''</level>\<newline>'' @
     ''      <proficiency>'' @ show_int (skill_proficiency skill) @ ''</proficiency>\<newline>'' @
     ''      <description>'' @ skill_description skill @ ''</description>\<newline>'' @
     ''    </skill>''"

definition project_xml :: "Project \<Rightarrow> string" where
  "project_xml project =
     ''\<newline>    <project>\<newline>'' @
     ''      <title>'' @ project_title project @ ''</title>\<newline>'' @
     ''      <category>'' @ project_category project @ ''</category>\<newline>'' @
     ''      <year>'' @ show_int (project_year project) @ ''</year>\<newline>'' @
     ''      <description>'' @ project_description project @ ''</description>\<newline>'' @
     ''      <status>'' @ project_status project @ ''</status>\<newline>'' @
     ''    </project>''"

definition generateXMLExport :: "ExportData \<Rightarrow> string" where
  "generateXMLExport d =
     ''<?xml version='' @ dq @ ''1.0'' @ dq @ '' encoding='' @ dq @ ''UTF-8'' @ dq @ ''?>\<newline>'' @
     ''<portfolio>\<newline>'' @
     ''  <title>'' @ title d @ ''</title>\<newline>'' @
     ''  <description>'' @ description d @ ''</description>\<newline>'' @
     ''  <skills>\<newline>'' @
     ''    '' @ concat (map skill_xml (skills d)) @ ''\<newline>'' @
     ''  </skills>\<newline>'' @
     ''  <projects>\<newline>'' @
     ''    '' @ concat (map project_xml (projects d)) @ ''\<newline>'' @
     ''  </projects>\<newline>'' @
     ''</portfolio>''"

text \<open>
  The quoting and escaping of the two formats: RFC 4180 doubles a quote inside a quoted
  field, and XML writes \<open>&\<close>, \<open><\<close> and \<open>>\<close> as entities. The format functions call
  nothing of the kind; the two definitions serve only to say so.
\<close>

definition csv_quoted :: "string \<Rightarrow> string" where
  "csv_quoted v = dq @ concat (map (\<lambda>c. if [c] = dq then [c, c] else [c]) v) @ dq"

definition xml_escaped :: "string \<Rightarrow> string" where
  "xml_escaped v =
     concat (map (\<lambda>c. if c = CHR ''&'' then ''&amp;''
                       else if c = CHR ''<'' then ''&lt;''
                       else if c = CHR ''>'' then ''&gt;''
                       else [c]) v)"

record ExportPortfolioArgs =
  format :: "string option"
  includePrivate :: bool
  compress :: bool

record ExportPayload =
  content :: string
  payload_format :: string
  mimeType :: string
  filename :: string
  size :: nat

datatype ApiResponse =
    ApiSuccess ExportPayload
  | ApiFailure string

text \<open>
  The \<open>export_portfolio\<close> handler on the heap, \<open>portfolioData\<close> being the address of
  the module's portfolio object. \<open>{ ...portfolioData }\<close> copies the object's own
  properties, hence the references it holds; \<open>delete exportData.contact.phone\<close> writes
  through the copied reference. \<open>JSON.stringify\<close> and the Markdown template (which prints
  the current date) are parameters. An exception inside the \<open>try\<close> gives the failure
  response. Of the success response the payload is kept: content, format, MIME type, file
  name and size.
\<close>

definition exportPortfolio ::
  "(bool \<Rightarrow> ExportData \<Rightarrow> string) \<Rightarrow> (ExportData \<Rightarrow> string) \<Rightarrow> ExportPortfolioArgs \<Rightarrow>
   ref \<Rightarrow> heap \<Rightarrow> ApiResponse \<times> heap" where
  "exportPortfolio stringify generateMarkdownExport args portfolioData h =
     (case h portfolioData of
        Some (PortfolioObject exportData) \<Rightarrow>
          (case h (contact exportData) of
             Some (ContactObject c) \<Rightarrow>
               (let fmt = (if truthy (format args) then the (format args) else ''json'');
                    h' = (if \<not> includePrivate args \<and> truthy (phone c)
                          then h(contact exportData \<mapsto> ContactObject (c\<lparr> phone := None \<rparr>))
                          else h)
                in (case read_data h' exportData of
                      None \<Rightarrow> (ApiFailure ''Failed to export portfolio'', h')
                    | Some d \<Rightarrow>
                        (if fmt = ''json'' then
                           (let result = stringify (compress args) d
                            in (ApiSuccess \<lparr> content = result, payload_format = fmt,
                                  mimeType = ''application/json'', filename = ''portfolio.json'',
                                  size = length result \<rparr>, h'))
                         else if fmt = ''markdown'' then
                           (let result = generateMarkdownExport d
                            in (ApiSuccess \<lparr> content = result, payload_format = fmt,
                                  mimeType = ''text/markdown'', filename = ''portfolio.md'',
                                  size = length result \<rparr>, h'))
                         else if fmt = ''csv'' then
                           (let result = generateCSVExport d
                            in (ApiSuccess \<lparr> content = result, payload_format = fmt,
                                  mimeType = ''text/csv'', filename = ''portfolio.csv'',
                                  size = length result \<rparr>, h'))
                         else if fmt = ''xml'' then
                           (let result = generateXMLExport d
                            in (ApiSuccess \<lparr> content = result, payload_format = fmt,
                                  mimeType = ''application/xml'', filename = ''portfolio.xml'',
                                  size = length result \<rparr>, h'))
                         else (ApiFailure ''Failed to export portfolio'', h'))))
           | _ \<Rightarrow> (ApiFailure ''Failed to export portfolio'', h))
      | _ \<Rightarrow> (ApiFailure ''Failed to export portfolio'', h))"

text \<open>
  The sibling handler \<open>get_contact_info\<close> (tools/portfolio-tools.ts) removes the phone
  from its own copy \<open>{ ...contactInfo }\<close> of the contact object: the heap is only read.
\<close>

definition getContactInfo :: "bool \<Rightarrow> ref \<Rightarrow> heap \<Rightarrow> ContactInfo option \<times> heap" where
  "getContactInfo includePrivateArg contactInfo h =
     (case h contactInfo of
        Some (ContactObject c) \<Rightarrow>
          (Some (if \<not> includePrivateArg then c\<lparr> phone := None \<rparr> else c), h)
      | _ \<Rightarrow> (None, h))"

section \<open>Concrete inputs\<close>

text \<open>The inputs at which the statements below are evaluated.\<close>

definition limit_2_per_second :: RateLimitConfig where
  "limit_2_per_second =
     \<lparr> windowMs = 1000, maxRequests = 2,
       skipSuccessfulRequests = False, skipFailedRequests = False \<rparr>"

definition limit_1_per_second :: RateLimitConfig where
  "limit_1_per_second =
     \<lparr> windowMs = 1000, maxRequests = 1,
       skipSuccessfulRequests = False, skipFailedRequests = False \<rparr>"

definition caller_X :: Request where
  "caller_X = \<lparr> ip = Some ''X'', userAgent = None \<rparr>"

text \<open>A call of the named tool with no arguments, as the transport hands it over.\<close>

definition call_of :: "string \<Rightarrow> CallToolRequest" where
  "call_of toolName =
     \<lparr> ip = None, userAgent = None, params_name = toolName, params_arguments = None \<rparr>"

text \<open>A registry with the server's tool names, each tool without an input schema.\<close>

definition plain_registry :: "string \<rightharpoonup> Tool" where
  "plain_registry =
     initializeTools (map (\<lambda>toolName. \<lparr> name = toolName, inputSchema = None \<rparr>) allToolNames)"

definition zod_accepts :: "jsval \<Rightarrow> jsval \<Rightarrow> zod_outcome" where
  "zod_accepts schema input = ParseSuccess input"

definition handler_null :: "string \<Rightarrow> jsval \<Rightarrow> js_error + jsval" where
  "handler_null toolName args = Inr JNull"

text \<open>
  A tool with a parameter schema, a call of it that breaks two constraints, and the two
  issues zod reports for that call.
\<close>

definition paged_tool :: Tool where
  "paged_tool =
     \<lparr> name = ''get_projects'',
       inputSchema = Some (JObj
         [(''type'', JStr ''object''),
          (''properties'', JObj
             [(''limit'', JObj [(''type'', JStr ''number''), (''minimum'', JNum 1),
                               (''maximum'', JNum 100)]),
              (''offset'', JObj [(''type'', JStr ''number''), (''minimum'', JNum 0)])])]) \<rparr>"

definition bad_page_call :: CallToolRequest where
  "bad_page_call =
     \<lparr> ip = None, userAgent = None, params_name = ''get_projects'',
       params_arguments = Some (JObj [(''limit'', JNum 150), (''offset'', JNum (- 1))]) \<rparr>"

definition zod_two_issues :: "jsval \<Rightarrow> jsval \<Rightarrow> zod_outcome" where
  "zod_two_issues schema input =
     ParseFailure
       [\<lparr> path = [PKey ''limit''],
          issue_message = ''Number must be less than or equal to 100'' \<rparr>,
        \<lparr> path = [PKey ''offset''],
          issue_message = ''Number must be greater than or equal to 0'' \<rparr>]"

text \<open>A view of a project from the given address, and the query for all projects.\<close>

definition view_of :: "string \<Rightarrow> string option \<Rightarrow> TrackEventArgs" where
  "view_of rid addr =
     \<lparr> ip = addr, userAgent = None, event_type = ''view'', resource = ''project'',
       resourceId = Some rid, referrer = None, metadata = None \<rparr>"

text \<open>The event log after tracking a view of each listed project at the listed instant.\<close>

definition log_of :: "(string \<times> int) list \<Rightarrow> AnalyticsEvent list" where
  "log_of views =
     foldl (\<lambda>events (rid, t). snd (trackEvent (view_of rid None) ''id'' t events)) [] views"

definition all_projects :: PopularContentArgs where
  "all_projects = \<lparr> contentType = Some ''projects'', limit = Some 10, timeRange = Some ''all'' \<rparr>"

text \<open>An engine whose sort leaves the entries as they are where the order is its own.\<close>

definition engine_keeps :: "(string \<times> tally_count) list \<Rightarrow> (string \<times> tally_count) list" where
  "engine_keeps entries = entries"

text \<open>A dataset whose fields hold quotes, commas, ampersands and angle brackets.\<close>

definition quoted_skill :: Skill where
  "quoted_skill =
     \<lparr> skill_name = ''Logo '' @ dq @ ''Mark'' @ dq, skill_category = ''adobe'',
       skill_level = ''advanced'', skill_proficiency = 85,
       skill_description = ''Vector, print'' \<rparr>"

definition rd_project :: Project where
  "rd_project =
     \<lparr> project_title = ''R&D <site>'', project_category = ''web-design'',
       project_shortDescription = ''Research & design'',
       project_description = ''Research & design site'', project_year = 2024,
       project_status = ''published'', project_views = 150, project_likes = 25 \<rparr>"

definition sample_contact :: ContactInfo where
  "sample_contact =
     \<lparr> email = ''gary@example.com'', phone = Some ''555-0100'',
       location = ''United States'', website = ''https://gary-portfolio.com'' \<rparr>"

definition sample_data :: ExportData where
  "sample_data =
     \<lparr> title = ''Portfolio'', description = ''Design & code'',
       skills = [quoted_skill], projects = [rd_project], contact = sample_contact \<rparr>"

text \<open>
  The same dataset on the heap: the portfolio object at address 0 refers to the skills
  at 1, the projects at 2 and the contact object at 3.
\<close>

definition sample_heap :: heap where
  "sample_heap =
     [0 \<mapsto> PortfolioObject \<lparr> title = ''Portfolio'', description = ''Design & code'',
                              skills = 1, projects = 2, contact = 3 \<rparr>,
      1 \<mapsto> SkillArray [quoted_skill],
      2 \<mapsto> ProjectArray [rd_project],
      3 \<mapsto> ContactObject sample_contact]"

definition default_export :: ExportPortfolioArgs where
  "default_export = \<lparr> format = None, includePrivate = False, compress = False \<rparr>"

section \<open>Properties of the rate limiter\<close>

lemma checkLimit_resetTime: "resetTime (fst (checkLimit config requests request now)) = 0"
  by (simp add: checkLimit_def Let_def ceil_div_def)

text \<open>
  Claim C1. Sliding-window admission. Whatever the log a run of calls has left, a call
  that finds fewer than \<open>maxRequests\<close> of the caller's recorded timestamps inside the
  trailing window (so that it is at most the \<open>maxRequests\<close>-th there) is allowed and its
  timestamp is appended to the pruned log; a call that finds \<open>maxRequests\<close> or more of
  them is denied and the log is left as it was.
\<close>

theorem checkLimit_sliding_window:
  "(let live = filter (\<lambda>req. now - windowMs config < timestamp req)
                 (case requests (generateKey request) of None \<Rightarrow> [] | Some rs \<Rightarrow> rs);
        res = checkLimit config requests request now
    in (int (length live) < maxRequests config \<longrightarrow>
          allowed (fst res) \<and>
          snd res = requests(generateKey request \<mapsto>
            live @ [\<lparr> ip = ip request, userAgent = userAgent request, timestamp = now \<rparr>]) \<and>
          remaining (fst res) = maxRequests config - int (length live) - 1) \<and>
       (maxRequests config \<le> int (length live) \<longrightarrow>
          \<not> allowed (fst res) \<and> snd res = requests \<and> remaining (fst res) = 0))"
  by (simp add: checkLimit_def Let_def)

theorem checkLimit_sliding_window_witness:
  "(let config = \<lparr> windowMs = 1000, maxRequests = 2,
                    skipSuccessfulRequests = False, skipFailedRequests = False \<rparr>;
        X = \<lparr> ip = Some ''X'', userAgent = None \<rparr>;
        (r1, s1) = checkLimit config Map.empty X 0;
        (r2, s2) = checkLimit config s1 X 100;
        (r3, s3) = checkLimit config s2 X 200
    in map allowed [r1, r2, r3] = [True, True, False] \<and> remaining r2 = 0 \<and>
       map timestamp (the (s2 ''ip:X'')) = [0, 100] \<and>
       maxRequests config \<le>
         int (length (filter (\<lambda>req. 200 - windowMs config < timestamp req) (the (s2 ''ip:X'')))) \<and>
       s3 = s2)"
  using checkLimit_sliding_window
    [of 200 "\<lparr> windowMs = 1000, maxRequests = 2,
                skipSuccessfulRequests = False, skipFailedRequests = False \<rparr>"
        "snd (checkLimit \<lparr> windowMs = 1000, maxRequests = 2,
                skipSuccessfulRequests = False, skipFailedRequests = False \<rparr>
              (snd (checkLimit \<lparr> windowMs = 1000, maxRequests = 2,
                skipSuccessfulRequests = False, skipFailedRequests = False \<rparr>
                 Map.empty \<lparr> ip = Some ''X'', userAgent = None \<rparr> 0))
              \<lparr> ip = Some ''X'', userAgent = None \<rparr> 100)"
        "\<lparr> ip = Some ''X'', userAgent = None \<rparr>"]
  by (simp add: checkLimit_def Let_def generateKey_def truthy_def ceil_div_def)

lemma map_upt_Suc_shift:
  "map f [0..<Suc n] = f 0 # map (\<lambda>i. f (Suc i)) [0..<n]"
  by (simp add: upt_conv_Cons map_Suc_upt [symmetric] del: upt_Suc)

text \<open>
  A run of calls whose instants all lie within one window of each other, on a log whose
  entries none of them prunes: the calls are allowed until the log holds \<open>maxRequests\<close>
  entries and denied from then on. On a fresh log the first \<open>maxRequests\<close> calls are
  allowed and every later one is denied.
\<close>

lemma calls_within_window_log:
  assumes "(case requests (generateKey request) of None \<Rightarrow> [] | Some rs \<Rightarrow> rs) = rs"
      and "\<forall>r\<in>set rs. \<forall>t\<in>set ts. t - windowMs config < timestamp r"
      and "\<forall>s\<in>set ts. \<forall>t\<in>set ts. t - windowMs config < s"
  shows "calls config requests request ts =
           map (\<lambda>i. int (length rs + i) < maxRequests config) [0..<length ts]"
  using assms
proof (induction ts arbitrary: requests rs)
  case Nil
  then show ?case by simp
next
  case (Cons now later)
  have live: "filter (\<lambda>req. now - windowMs config < timestamp req) rs = rs"
    using Cons.prems(2) by (auto simp: filter_id_conv)
  show ?case
  proof (cases "int (length rs) < maxRequests config")
    case True
    let ?rs' = "rs @ [\<lparr> ip = ip request, userAgent = userAgent request, timestamp = now \<rparr>]"
    have step: "allowed (fst (checkLimit config requests request now))"
      "snd (checkLimit config requests request now) = requests(generateKey request \<mapsto> ?rs')"
      using True Cons.prems(1) live by (simp_all add: checkLimit_def Let_def)
    have "calls config (requests(generateKey request \<mapsto> ?rs')) request later =
            map (\<lambda>i. int (length ?rs' + i) < maxRequests config) [0..<length later]"
      using Cons.prems(2,3) by (intro Cons.IH) auto
    then show ?thesis
      using True step by (simp add: map_upt_Suc_shift add.commute add.left_commute del: upt_Suc)
  next
    case False
    have step: "\<not> allowed (fst (checkLimit config requests request now))"
      "snd (checkLimit config requests request now) = requests"
      using False Cons.prems(1) live by (simp_all add: checkLimit_def Let_def)
    have "calls config requests request later =
            map (\<lambda>i. int (length rs + i) < maxRequests config) [0..<length later]"
      using Cons.prems by (intro Cons.IH) auto
    then show ?thesis
      using False step by (simp add: map_upt_Suc_shift del: upt_Suc)
  qed
qed

lemma calls_within_window:
  assumes "requests (generateKey request) = None"
      and "\<forall>s\<in>set ts. \<forall>t\<in>set ts. t - windowMs config < s"
  shows "calls config requests request ts =
           map (\<lambda>i. int i < maxRequests config) [0..<length ts]"
  using calls_within_window_log [of requests request "[]" ts config] assms by simp

text \<open>The minute sweep changes no later verdict.\<close>

lemma filter_window_twice:
  "swept \<le> now \<Longrightarrow>
   filter (\<lambda>req. now - windowMs config < timestamp req)
     (filter (\<lambda>req. swept - windowMs config < timestamp req) rs) =
   filter (\<lambda>req. now - windowMs config < timestamp req) (rs :: RequestInfo list)"
  by (induction rs) auto

lemma cleanup_checkLimit:
  assumes "swept \<le> now"
  shows "fst (checkLimit config (cleanup config requests swept) request now) =
         fst (checkLimit config requests request now)"
proof (cases "requests (generateKey request)")
  case None
  then show ?thesis by (simp add: checkLimit_def cleanup_def Let_def)
next
  case (Some rs)
  show ?thesis
  proof (cases "filter (\<lambda>req. swept - windowMs config < timestamp req) rs = []")
    case True
    with filter_window_twice [OF assms, of config rs]
    have "filter (\<lambda>req. now - windowMs config < timestamp req) rs = []" by simp
    with True Some show ?thesis by (simp add: checkLimit_def cleanup_def Let_def)
  next
    case False
    with Some filter_window_twice [OF assms, of config rs] show ?thesis
      by (simp add: checkLimit_def cleanup_def Let_def)
  qed
qed

text \<open>
  Claim C3. The reset time is meant to be the number of seconds until the oldest timestamp
  in the caller's window expires. The limiter computes it from \<open>windowStart\<close>, not from
  a timestamp of the log, so the value is 0 at every call (\<open>checkLimit_resetTime\<close>). At
  the second call of caller X, 100 ms after the first with a window of 1000 ms, the log
  holds the timestamp 0, which expires 900 ms later (1 second, rounded up), and the
  limiter returns 0.
\<close>

theorem checkLimit_resetTime_second_call:
  "map timestamp
     (the (snd (checkLimit limit_2_per_second Map.empty caller_X 0) (generateKey caller_X))) = [0] \<and>
   resetTime (fst (checkLimit limit_2_per_second
                     (snd (checkLimit limit_2_per_second Map.empty caller_X 0)) caller_X 100)) = 0 \<and>
   ceil_div (0 + windowMs limit_2_per_second - 100) 1000 = 1"
  by (simp add: checkLimit_def Let_def limit_2_per_second_def caller_X_def generateKey_def
      truthy_def ceil_div_def)

section \<open>Properties of the dispatcher\<close>

lemma show_int_0: "show_int 0 = ''0''"
  by (simp add: show_int_def show_nat.simps digit_char_def)

text \<open>A call spends the caller's budget whatever becomes of it afterwards.\<close>

lemma callTool_log:
  "snd (callTool config tools zod handler requests request now isoNow) =
   snd (checkLimit config requests request now)"
  by (simp add: callTool_def Let_def case_prod_beta)

lemma callTool_denied:
  "\<not> allowed (fst (checkLimit config requests request now)) \<Longrightarrow>
   fst (callTool config tools zod handler requests request now isoNow) =
     ToolError
       \<lparr> message = ''Rate limit exceeded. Try again in 0 seconds.'', code = ''INTERNAL_ERROR'',
         statusCode = 500, err_timestamp = isoNow,
         err_context = Some [(''tool'', JStr (params_name request)),
                             (''args'', case params_arguments request of
                                          None \<Rightarrow> JUndefined | Some a \<Rightarrow> a),
                             (''timestamp'', JStr isoNow)] \<rparr>
       \<lparr> success = False, error = ''Rate limit exceeded. Try again in 0 seconds.'',
         envelope_code = ''INTERNAL_ERROR'', envelope_timestamp = isoNow \<rparr>"
  using checkLimit_resetTime [of config requests request now]
  by (simp add: callTool_def Let_def handleError_def show_int_0 case_prod_beta)

lemma callTool_unknown:
  "allowed (fst (checkLimit config requests request now)) \<Longrightarrow>
   tools (params_name request) = None \<Longrightarrow>
   fst (callTool config tools zod handler requests request now isoNow) =
     ToolError
       \<lparr> message = ''Unknown tool: '' @ params_name request, code = ''INTERNAL_ERROR'',
         statusCode = 500, err_timestamp = isoNow,
         err_context = Some [(''tool'', JStr (params_name request)),
                             (''args'', case params_arguments request of
                                          None \<Rightarrow> JUndefined | Some a \<Rightarrow> a),
                             (''timestamp'', JStr isoNow)] \<rparr>
       \<lparr> success = False, error = ''Unknown tool: '' @ params_name request,
         envelope_code = ''INTERNAL_ERROR'', envelope_timestamp = isoNow \<rparr>"
  by (simp add: callTool_def Let_def handleError_def case_prod_beta)

text \<open>
  A failed validation: the message lists every error of the validation result, and the
  error is classified as any untyped \<open>Error\<close> is.
\<close>

lemma callTool_invalid:
  "allowed (fst (checkLimit config requests request now)) \<Longrightarrow>
   tools (params_name request) = Some tool \<Longrightarrow>
   \<not> valid (validateToolInput zod tool
              (case params_arguments request of None \<Rightarrow> JObj [] | Some a \<Rightarrow> a)) \<Longrightarrow>
   fst (callTool config tools zod handler requests request now isoNow) =
     ToolError
       \<lparr> message = ''Invalid input: '' @ join '', '' (errors (validateToolInput zod tool
              (case params_arguments request of None \<Rightarrow> JObj [] | Some a \<Rightarrow> a))),
         code = ''INTERNAL_ERROR'',
         statusCode = 500, err_timestamp = isoNow,
         err_context = Some [(''tool'', JStr (params_name request)),
                             (''args'', case params_arguments request of
                                          None \<Rightarrow> JUndefined | Some a \<Rightarrow> a),
                             (''timestamp'', JStr isoNow)] \<rparr>
       \<lparr> success = False,
         error = ''Invalid input: '' @ join '', '' (errors (validateToolInput zod tool
              (case params_arguments request of None \<Rightarrow> JObj [] | Some a \<Rightarrow> a))),
         envelope_code = ''INTERNAL_ERROR'', envelope_timestamp = isoNow \<rparr>"
  by (simp add: callTool_def Let_def handleError_def case_prod_beta)

text \<open>When zod reports issues, the validation result holds one error for each of them.\<close>

lemma validateToolInput_issues:
  "inputSchema tool = Some schema \<Longrightarrow> zod schema input = ParseFailure issues \<Longrightarrow>
   \<not> valid (validateToolInput zod tool input) \<and>
   errors (validateToolInput zod tool input) =
     map (\<lambda>err. join ''.'' (map path_string (path err)) @ '': '' @ issue_message err) issues"
  by (simp add: validateToolInput_def)

lemma initializeTools_acc:
  "foldl (\<lambda>tools tool. tools(name tool \<mapsto> tool)) m ts n = None \<longleftrightarrow>
   m n = None \<and> n \<notin> set (map name ts)"
  by (induction ts arbitrary: m) auto

lemma initializeTools_None:
  "initializeTools allTools n = None \<longleftrightarrow> n \<notin> set (map name allTools)"
  by (simp add: initializeTools_def initializeTools_acc)

lemma get_nonexistent_not_a_tool: "''get_nonexistent'' \<notin> set allToolNames"
  by (simp add: allToolNames_def portfolioToolNames_def skillToolNames_def
      projectToolNames_def analyticsToolNames_def exportToolNames_def)

lemma plain_registry_None: "plain_registry n = None \<longleftrightarrow> n \<notin> set allToolNames"
  by (simp add: plain_registry_def initializeTools_None comp_def)

lemma plain_registry_get_nonexistent: "plain_registry ''get_nonexistent'' = None"
  by (simp add: plain_registry_None get_nonexistent_not_a_tool)

text \<open>
  \<open>get_popular_content\<close> is registered but has no case in \<open>executeTool\<close>.
\<close>

lemma executeTool_get_popular_content:
  "executeTool handler ''get_popular_content'' args =
     Inl (JsError ''Error'' ''Tool handler not implemented: get_popular_content'' JUndefined)"
  by (simp add: executeTool_def executeToolCases_def)

text \<open>
  The error classes of the handler's module: a \<open>RateLimitError\<close> is reported with the
  code \<open>RATE_LIMIT_EXCEEDED\<close>, the status 429 and the reset time in its context, and a
  \<open>ValidationError\<close> with \<open>VALIDATION_ERROR\<close> and 400.
\<close>

lemma handleError_RateLimitError:
  "handleError (RateLimitError secs) ctx isoNow =
     \<lparr> message = ''Rate limit exceeded. Try again in '' @ show_int secs @ '' seconds.'',
       code = ''RATE_LIMIT_EXCEEDED'', statusCode = 429, err_timestamp = isoNow,
       err_context = Some (spread (Some [(''resetTime'', JNum secs)]) ctx) \<rparr>"
  by (simp add: handleError_def RateLimitError_def)

lemma handleError_ValidationError:
  "handleError (ValidationError msg ectx) ctx isoNow =
     \<lparr> message = msg, code = ''VALIDATION_ERROR'', statusCode = 400, err_timestamp = isoNow,
       err_context = Some (spread ectx ctx) \<rparr>"
  by (simp add: handleError_def ValidationError_def)

text \<open>
  Claim C2. A call the limiter denies is to be answered with the code
  \<open>RATE_LIMIT_EXCEEDED\<close>, the status 429 and a \<open>resetTime\<close> in the context. The
  dispatcher throws an untyped \<open>Error\<close> instead of the \<open>RateLimitError\<close> of the error
  module, so the second call within a window of one request is answered with the code
  \<open>INTERNAL_ERROR\<close> and the status 500, and its context holds the tool, the arguments
  and the timestamp only.
\<close>

theorem callTool_rate_limited_second_call:
  "fst (callTool limit_1_per_second plain_registry zod_accepts handler_null
          (snd (callTool limit_1_per_second plain_registry zod_accepts handler_null
                  Map.empty (call_of ''get_skills'') 0 ''t0''))
          (call_of ''get_skills'') 100 ''t1'') =
     ToolError
       \<lparr> message = ''Rate limit exceeded. Try again in 0 seconds.'', code = ''INTERNAL_ERROR'',
         statusCode = 500, err_timestamp = ''t1'',
         err_context = Some [(''tool'', JStr ''get_skills''), (''args'', JUndefined),
                             (''timestamp'', JStr ''t1'')] \<rparr>
       \<lparr> success = False, error = ''Rate limit exceeded. Try again in 0 seconds.'',
         envelope_code = ''INTERNAL_ERROR'', envelope_timestamp = ''t1'' \<rparr>"
  by (simp add: callTool_def checkLimit_def Let_def limit_1_per_second_def call_of_def
      generateKey_def truthy_def ceil_div_def show_int_0 handleError_def)

text \<open>
  Claim C4, as the dispatcher has it: the rate-limiter gate comes first and the lookup
  second. A call of a name that is not registered is answered with the unknown-tool error
  (message \<open>Unknown tool: \<close> and the name, code \<open>INTERNAL_ERROR\<close>, status 500) when the
  limiter allows the call, and with the rate-limit error when the limiter denies it; in
  both cases the limiter's log is the one \<open>checkLimit\<close> leaves.
\<close>

theorem callTool_unregistered:
  "tools (params_name request) = None \<Longrightarrow>
   fst (callTool config tools zod handler requests request now isoNow) =
     (if allowed (fst (checkLimit config requests request now)) then
        ToolError
          \<lparr> message = ''Unknown tool: '' @ params_name request, code = ''INTERNAL_ERROR'',
            statusCode = 500, err_timestamp = isoNow,
            err_context = Some [(''tool'', JStr (params_name request)),
                                (''args'', case params_arguments request of
                                             None \<Rightarrow> JUndefined | Some a \<Rightarrow> a),
                                (''timestamp'', JStr isoNow)] \<rparr>
          \<lparr> success = False, error = ''Unknown tool: '' @ params_name request,
            envelope_code = ''INTERNAL_ERROR'', envelope_timestamp = isoNow \<rparr>
      else
        ToolError
          \<lparr> message = ''Rate limit exceeded. Try again in 0 seconds.'',
            code = ''INTERNAL_ERROR'', statusCode = 500, err_timestamp = isoNow,
            err_context = Some [(''tool'', JStr (params_name request)),
                                (''args'', case params_arguments request of
                                             None \<Rightarrow> JUndefined | Some a \<Rightarrow> a),
                                (''timestamp'', JStr isoNow)] \<rparr>
          \<lparr> success = False, error = ''Rate limit exceeded. Try again in 0 seconds.'',
            envelope_code = ''INTERNAL_ERROR'', envelope_timestamp = isoNow \<rparr>) \<and>
   snd (callTool config tools zod handler requests request now isoNow) =
     snd (checkLimit config requests request now)"
  by (simp add: callTool_denied callTool_unknown callTool_log)

theorem callTool_unregistered_witness:
  "plain_registry (params_name (call_of ''get_nonexistent'')) = None \<and>
   fst (callTool limit_1_per_second plain_registry zod_accepts handler_null Map.empty
          (call_of ''get_nonexistent'') 0 ''t0'') =
     ToolError
       \<lparr> message = ''Unknown tool: get_nonexistent'', code = ''INTERNAL_ERROR'',
         statusCode = 500, err_timestamp = ''t0'',
         err_context = Some [(''tool'', JStr ''get_nonexistent''), (''args'', JUndefined),
                             (''timestamp'', JStr ''t0'')] \<rparr>
       \<lparr> success = False, error = ''Unknown tool: get_nonexistent'',
         envelope_code = ''INTERNAL_ERROR'', envelope_timestamp = ''t0'' \<rparr> \<and>
   map timestamp
     (the (snd (callTool limit_1_per_second plain_registry zod_accepts handler_null Map.empty
                  (call_of ''get_nonexistent'') 0 ''t0'') ''anonymous'')) = [0]"
  using callTool_unregistered
    [where tools = plain_registry and request = "call_of ''get_nonexistent''"
       and config = limit_1_per_second and zod = zod_accepts and handler = handler_null
       and requests = Map.empty and now = 0 and isoNow = "''t0''"]
  by (simp add: plain_registry_get_nonexistent call_of_def checkLimit_def
      Let_def limit_1_per_second_def generateKey_def truthy_def)

text \<open>
  Against claim C4 as stated: with a window of one request already spent, the call of the
  unregistered name is answered with the rate-limit error, while the same call on an
  empty log is answered with the unknown-tool error. The answer depends on the caller's
  rate-limit state.
\<close>

theorem callTool_unregistered_counterexample:
  "plain_registry ''get_nonexistent'' = None \<and>
   error (envelope (fst (callTool limit_1_per_second plain_registry zod_accepts handler_null
          (snd (callTool limit_1_per_second plain_registry zod_accepts handler_null
                  Map.empty (call_of ''get_skills'') 0 ''t0''))
          (call_of ''get_nonexistent'') 100 ''t1''))) =
     ''Rate limit exceeded. Try again in 0 seconds.'' \<and>
   error (envelope (fst (callTool limit_1_per_second plain_registry zod_accepts handler_null
          Map.empty (call_of ''get_nonexistent'') 100 ''t1''))) =
     ''Unknown tool: get_nonexistent''"
  by (simp add: plain_registry_get_nonexistent callTool_def checkLimit_def
      Let_def limit_1_per_second_def call_of_def generateKey_def truthy_def ceil_div_def
      show_int_0 handleError_def)

text \<open>
  Claim C5, as the dispatcher has it: with the server's tools registered, a call of
  \<open>get_nonexistent\<close> that the limiter allows is answered with the envelope whose
  \<open>success\<close> is false, whose error message is \<open>Unknown tool: get_nonexistent\<close> and whose
  code is \<open>INTERNAL_ERROR\<close>.
\<close>

theorem callTool_get_nonexistent:
  "map name allTools = allToolNames \<Longrightarrow>
   params_name request = ''get_nonexistent'' \<Longrightarrow>
   allowed (fst (checkLimit config requests request now)) \<Longrightarrow>
   envelope (fst (callTool config (initializeTools allTools) zod handler requests request
                    now isoNow)) =
     \<lparr> success = False, error = ''Unknown tool: get_nonexistent'',
       envelope_code = ''INTERNAL_ERROR'', envelope_timestamp = isoNow \<rparr>"
  using callTool_unknown [of config requests request now "initializeTools allTools" zod handler isoNow]
  by (simp add: initializeTools_None get_nonexistent_not_a_tool)

theorem callTool_get_nonexistent_witness:
  "map name (map (\<lambda>toolName. \<lparr> name = toolName, inputSchema = None \<rparr>) allToolNames) =
     allToolNames \<and>
   params_name (call_of ''get_nonexistent'') = ''get_nonexistent'' \<and>
   allowed (fst (checkLimit limit_2_per_second Map.empty (call_of ''get_nonexistent'') 0)) \<and>
   envelope (fst (callTool limit_2_per_second plain_registry zod_accepts handler_null
                    Map.empty (call_of ''get_nonexistent'') 0 ''t0'')) =
     \<lparr> success = False, error = ''Unknown tool: get_nonexistent'',
       envelope_code = ''INTERNAL_ERROR'', envelope_timestamp = ''t0'' \<rparr>"
  using callTool_get_nonexistent
    [where allTools = "map (\<lambda>toolName. \<lparr> name = toolName, inputSchema = None \<rparr>) allToolNames"
       and request = "call_of ''get_nonexistent''" and config = limit_2_per_second
       and requests = Map.empty and now = 0 and zod = zod_accepts and handler = handler_null
       and isoNow = "''t0''"]
  by (simp add: plain_registry_def comp_def call_of_def checkLimit_def Let_def
      limit_2_per_second_def generateKey_def truthy_def)

text \<open>
  Against claim C5 as stated: on an empty log the envelope for \<open>get_nonexistent\<close> has
  the code \<open>INTERNAL_ERROR\<close>, not \<open>UNKNOWN_OPERATION\<close>.
\<close>

theorem callTool_get_nonexistent_counterexample:
  "envelope_code (envelope (fst (callTool limit_2_per_second plain_registry zod_accepts
       handler_null Map.empty (call_of ''get_nonexistent'') 0 ''t0''))) = ''INTERNAL_ERROR'' \<and>
   envelope_code (envelope (fst (callTool limit_2_per_second plain_registry zod_accepts
       handler_null Map.empty (call_of ''get_nonexistent'') 0 ''t0''))) \<noteq> ''UNKNOWN_OPERATION''"
  by (simp add: plain_registry_get_nonexistent callTool_def checkLimit_def
      Let_def limit_2_per_second_def call_of_def generateKey_def truthy_def handleError_def)

text \<open>
  Claim C6. A call whose arguments fail validation is to be answered with the code
  \<open>VALIDATION_ERROR\<close> and the status 400, listing every violated constraint with its
  dot-joined path. The message does list every issue zod reports, each after its path
  (\<open>callTool_invalid\<close>, \<open>validateToolInput_issues\<close>), but the dispatcher throws an
  untyped \<open>Error\<close> instead of the \<open>ValidationError\<close> of the error module: the call
  below, which breaks two constraints, is answered with the code \<open>INTERNAL_ERROR\<close> and
  the status 500.
\<close>

theorem callTool_invalid_input_two_issues:
  "fst (callTool limit_2_per_second [''get_projects'' \<mapsto> paged_tool] zod_two_issues
          handler_null Map.empty bad_page_call 0 ''t0'') =
     ToolError
       \<lparr> message = ''Invalid input: limit: Number must be less than or equal to 100, offset: Number must be greater than or equal to 0'',
         code = ''INTERNAL_ERROR'', statusCode = 500, err_timestamp = ''t0'',
         err_context = Some [(''tool'', JStr ''get_projects''),
                             (''args'', JObj [(''limit'', JNum 150), (''offset'', JNum (- 1))]),
                             (''timestamp'', JStr ''t0'')] \<rparr>
       \<lparr> success = False,
         error = ''Invalid input: limit: Number must be less than or equal to 100, offset: Number must be greater than or equal to 0'',
         envelope_code = ''INTERNAL_ERROR'', envelope_timestamp = ''t0'' \<rparr>"
  by (simp add: callTool_def checkLimit_def Let_def limit_2_per_second_def bad_page_call_def
      generateKey_def truthy_def handleError_def paged_tool_def zod_two_issues_def
      validateToolInput_def)

section \<open>Properties of the analytics tracker\<close>

lemma split_not_Nil: "split sep s \<noteq> []"
  by (induction s) (auto split: list.splits)

lemma split_no_sep: "p \<in> set (split sep s) \<Longrightarrow> sep \<notin> set p"
  by (induction s arbitrary: p) (auto split: list.splits if_splits)

lemma split_append_sep:
  "sep \<notin> set p \<Longrightarrow> split sep (p @ sep # s) = p # split sep s"
  by (induction p) (auto split: list.splits)

lemma split_no_sep_id: "sep \<notin> set p \<Longrightarrow> split sep p = [p]"
  by (induction p) (auto split: list.splits)

lemma split_join:
  "ps \<noteq> [] \<Longrightarrow> (\<And>p. p \<in> set ps \<Longrightarrow> sep \<notin> set p) \<Longrightarrow> split sep (join [sep] ps) = ps"
proof (induction "[sep]" ps rule: join.induct)
  case 1
  then show ?case by simp
next
  case (2 x)
  then show ?case by (simp add: split_no_sep_id)
next
  case (3 x y ys)
  then show ?case by (simp add: split_append_sep)
qed

lemma anonymizeIP_four_parts:
  assumes "length (split CHR ''.'' addr) = 4"
  shows "anonymizeIP addr = join ''.'' (take 3 (split CHR ''.'' addr) @ [''0''])"
proof -
  from assms obtain a b c d where ps: "split CHR ''.'' addr = [a, b, c, d]"
    by (auto simp: length_Suc_conv eval_nat_numeral)
  then show ?thesis by (simp add: anonymizeIP_def)
qed

lemma anonymizeIP_split:
  assumes "length (split CHR ''.'' addr) = 4"
  shows "split CHR ''.'' (anonymizeIP addr) = take 3 (split CHR ''.'' addr) @ [''0'']"
proof -
  have "split CHR ''.'' (join [CHR ''.''] (take 3 (split CHR ''.'' addr) @ [''0''])) =
        take 3 (split CHR ''.'' addr) @ [''0'']"
    by (rule split_join) (auto dest: in_set_takeD split_no_sep)
  then show ?thesis
    using assms by (simp add: anonymizeIP_four_parts)
qed

lemma anonymizeIP_other:
  "length (split CHR ''.'' addr) \<noteq> 4 \<Longrightarrow>
   anonymizeIP addr = take (length addr div 2) addr @ ''xxxx''"
  by (simp add: anonymizeIP_def)

text \<open>
  Claim C7, as the handler has it: \<open>track_event\<close> stores the anonymized form of a
  non-empty address. For an address that splits at its dots into exactly four parts, as
  every IPv4 dotted quad does, the stored string splits into the same first three parts
  followed by \<open>0\<close>. For every other address it is the first half of the input (the
  length halved, rounded down) followed by \<open>xxxx\<close>.
\<close>

theorem trackEvent_anonymized_address:
  "ip args = Some addr \<Longrightarrow> addr \<noteq> [] \<Longrightarrow>
   ip (last (snd (trackEvent args uuid now analyticsEvents))) = Some (anonymizeIP addr) \<and>
   (length (split CHR ''.'' addr) = 4 \<longrightarrow>
      split CHR ''.'' (anonymizeIP addr) = take 3 (split CHR ''.'' addr) @ [''0'']) \<and>
   (is_ipv4 addr \<longrightarrow>
      split CHR ''.'' (anonymizeIP addr) = take 3 (split CHR ''.'' addr) @ [''0'']) \<and>
   (length (split CHR ''.'' addr) \<noteq> 4 \<longrightarrow>
      anonymizeIP addr = take (length addr div 2) addr @ ''xxxx'')"
  by (simp add: trackEvent_def Let_def truthy_def anonymizeIP_split anonymizeIP_other is_ipv4_def)


lemma is_ipv4_example: "is_ipv4 ''192.168.1.77''"
  by (simp add: is_ipv4_def is_octet_def is_digit_def digits_value_def digit_value_def)

lemma not_ipv4_example: "\<not> is_ipv4 ''::ffff:1.2.3.4''"
  by (simp add: is_ipv4_def is_octet_def is_digit_def digits_value_def digit_value_def)

theorem trackEvent_anonymized_address_witness:
  "ip (view_of ''p1'' (Some ''192.168.1.77'')) = Some ''192.168.1.77'' \<and>
   is_ipv4 ''192.168.1.77'' \<and>
   ip (last (snd (trackEvent (view_of ''p1'' (Some ''192.168.1.77'')) ''id'' 0 []))) =
     Some ''192.168.1.0'' \<and>
   split CHR ''.'' ''192.168.1.0'' = [''192'', ''168'', ''1'', ''0''] \<and>
   ip (view_of ''p1'' (Some ''2001:db8::1'')) = Some ''2001:db8::1'' \<and>
   length (split CHR ''.'' ''2001:db8::1'') = 1 \<and>
   ip (last (snd (trackEvent (view_of ''p1'' (Some ''2001:db8::1'')) ''id'' 0 []))) =
     Some ''2001:xxxx''"
  using trackEvent_anonymized_address
    [of "view_of ''p1'' (Some ''192.168.1.77'')" "''192.168.1.77''" "''id''" 0 "[]"]
    trackEvent_anonymized_address
    [of "view_of ''p1'' (Some ''2001:db8::1'')" "''2001:db8::1''" "''id''" 0 "[]"]
  by (simp add: view_of_def anonymizeIP_def is_ipv4_def is_octet_def is_digit_def
      digits_value_def digit_value_def)

text \<open>
  Against claim C7 as stated: the IPv4-mapped IPv6 address \<open>::ffff:1.2.3.4\<close> is not
  an IPv4 dotted quad, yet it has four dot-separated parts, and what is stored is
  \<open>::ffff:1.2.3.0\<close>, not the first half of the input followed by the marker.
\<close>

theorem trackEvent_anonymized_address_counterexample:
  "\<not> is_ipv4 ''::ffff:1.2.3.4'' \<and>
   ip (last (snd (trackEvent (view_of ''p1'' (Some ''::ffff:1.2.3.4'')) ''id'' 0 []))) =
     Some ''::ffff:1.2.3.0'' \<and>
   take (length ''::ffff:1.2.3.4'' div 2) ''::ffff:1.2.3.4'' @ ''xxxx'' = ''::ffff:xxxx''"
  by (simp add: trackEvent_def Let_def truthy_def view_of_def anonymizeIP_def is_ipv4_def
      is_octet_def is_digit_def digits_value_def digit_value_def)

text \<open>The entries of an object, and the tally of identifiers that name no inherited property.\<close>

lemma set_Object_entries: "set (Object_entries obj) = set obj"
  by (auto simp: Object_entries_def)

lemma Object_entries_plain:
  assumes "list_all (\<lambda>(k, v). \<not> is_array_index k) obj"
  shows "Object_entries obj = obj"
proof -
  from assms have "filter (\<lambda>(k, v). is_array_index k) obj = []"
    by (induction obj) auto
  moreover from assms have "filter (\<lambda>(k, v). \<not> is_array_index k) obj = obj"
    by (induction obj) auto
  ultimately show ?thesis by (simp add: Object_entries_def)
qed

lemma obj_set_keys_in:
  "distinct ks \<Longrightarrow> k \<in> set ks \<Longrightarrow>
   obj_set (map (\<lambda>x. (x, f x)) ks) k v = map (\<lambda>x. (x, if x = k then v else f x)) ks"
  by (induction ks) auto

lemma obj_set_keys_notin:
  "k \<notin> set ks \<Longrightarrow> obj_set (map (\<lambda>x. (x, f x)) ks) k v = map (\<lambda>x. (x, f x)) ks @ [(k, v)]"
  by (induction ks) auto

lemma map_of_keys:
  "map_of (map (\<lambda>x. (x, f x)) ks) k = (if k \<in> set ks then Some (f k) else None)"
  by (induction ks) auto

lemma count_interaction_plain:
  assumes "k \<notin> set objectPrototypeNames" and "distinct ks"
  shows "count_interaction (map (\<lambda>x. (x, Number (f x))) ks) k =
           (if k \<in> set ks
            then map (\<lambda>x. (x, Number (if x = k then f k + 1 else f x))) ks
            else map (\<lambda>x. (x, Number (f x))) ks @ [(k, Number 1)])"
proof -
  from assms(1) have "k \<noteq> ''__proto__''" and "k \<notin> set objectPrototypeMethods"
    by (auto simp: objectPrototypeNames_def)
  then show ?thesis
    using assms(2)
    by (simp add: count_interaction_def
        map_of_keys [where f = "\<lambda>x. Number (f x)"]
        obj_set_keys_in [where f = "\<lambda>x. Number (f x)"]
        obj_set_keys_notin [where f = "\<lambda>x. Number (f x)"])
qed

lemma countInteractions_snoc:
  "countInteractions (events @ [event]) =
     (if truthy (resourceId event)
      then count_interaction (countInteractions events) (the (resourceId event))
      else countInteractions events)"
  by (simp add: countInteractions_def)

lemma resourceIds_snoc:
  "resourceIds (events @ [event]) =
     (if truthy (resourceId event) then resourceIds events @ [the (resourceId event)]
      else resourceIds events)"
  by (simp add: resourceIds_def)

lemma countInteractions_tally:
  assumes "list_all (\<lambda>k. k \<notin> set objectPrototypeNames) (resourceIds events)"
  shows "countInteractions events =
     map (\<lambda>k. (k, Number (count_list (resourceIds events) k)))
       (rev (remdups (rev (resourceIds events))))"
  using assms
proof (induction events rule: rev_induct)
  case Nil
  then show ?case by (simp add: countInteractions_def resourceIds_def)
next
  case (snoc event events)
  show ?case
  proof (cases "truthy (resourceId event)")
    case False
    then show ?thesis
      using snoc by (simp add: countInteractions_snoc resourceIds_snoc)
  next
    case True
    define k where "k = the (resourceId event)"
    define ids where "ids = resourceIds events"
    have ids': "resourceIds (events @ [event]) = ids @ [k]"
      using True by (simp add: resourceIds_snoc k_def ids_def)
    from snoc.prems have plain: "k \<notin> set objectPrototypeNames"
      and rest: "list_all (\<lambda>k. k \<notin> set objectPrototypeNames) ids"
      by (simp_all add: ids')
    have IH: "countInteractions events =
                map (\<lambda>x. (x, Number (count_list ids x))) (rev (remdups (rev ids)))"
      using snoc.IH rest by (simp add: ids_def)
    have step: "countInteractions (events @ [event]) =
                  count_interaction (countInteractions events) k"
      using True by (simp add: countInteractions_snoc k_def)
    show ?thesis
    proof (cases "k \<in> set ids")
      case True
      then show ?thesis
        unfolding step ids' IH
        by (simp add: count_interaction_plain [OF plain])
    next
      case False
      then show ?thesis
        unfolding step ids' IH
        by (auto simp add: count_interaction_plain [OF plain])
    qed
  qed
qed

lemma popularItems_pairs:
  "map (\<lambda>it. (item_resourceId it, interactions it))
     (popularItems engine analyticsEvents args now) =
   take (case limit args of None \<Rightarrow> 10 | Some n \<Rightarrow> if n = 0 then 10 else n)
     (sortByCount engine
        (Object_entries (countInteractions (filteredEvents analyticsEvents args now))))"
  by (simp add: popularItems_def Let_def comp_def case_prod_beta take_map [symmetric])

lemma entries_numbers:
  assumes "list_all (\<lambda>k. k \<notin> set objectPrototypeNames) (resourceIds events)"
  shows "list_all (\<lambda>(rid, c). is_number c) (Object_entries (countInteractions events))"
proof -
  have "\<forall>e\<in>set (countInteractions events). is_number (snd e)"
    unfolding countInteractions_tally [OF assms] by auto
  then show ?thesis
    by (auto simp: list_all_iff set_Object_entries)
qed

lemma sortByCount_numbers:
  "list_all (\<lambda>(rid, c). is_number c) entries \<Longrightarrow>
   sortByCount engine entries = sort_key (\<lambda>(rid, c). - int (number_of c)) entries"
  by (simp add: sortByCount_def)

lemma sorted_wrt_take_prefix: "sorted_wrt R xs \<Longrightarrow> sorted_wrt R (take n xs)"
  by (metis append_take_drop_id sorted_wrt_append)

lemma sort_key_descending:
  "sorted_wrt (\<lambda>a b. number_of (snd b) \<le> number_of (snd a))
     (sort_key (\<lambda>(rid, c). - int (number_of c)) (xs :: (string \<times> tally_count) list))"
proof -
  have "sorted (map (\<lambda>(rid, c). - int (number_of c))
                  (sort_key (\<lambda>(rid, c). - int (number_of c)) xs))"
    by (rule sorted_sort_key)
  then show ?thesis
    by (simp add: sorted_map case_prod_beta)
qed

lemma popularItems_numbers:
  assumes "list_all (\<lambda>k. k \<notin> set objectPrototypeNames)
             (resourceIds (filteredEvents analyticsEvents args now))"
  shows "list_all (\<lambda>it. is_number (interactions it))
           (popularItems engine analyticsEvents args now)"
proof -
  let ?entries = "Object_entries (countInteractions (filteredEvents analyticsEvents args now))"
  have "\<forall>e\<in>set (sort_key (\<lambda>(rid, c). - int (number_of c)) ?entries). is_number (snd e)"
    using entries_numbers [OF assms] by (auto simp: list_all_iff)
  then have "\<forall>e\<in>set (map (\<lambda>it. (item_resourceId it, interactions it))
                          (popularItems engine analyticsEvents args now)). is_number (snd e)"
    unfolding popularItems_pairs sortByCount_numbers [OF entries_numbers [OF assms]]
    by (meson in_set_takeD)
  then show ?thesis
    by (auto simp: list_all_iff)
qed

lemma popularItems_descending:
  assumes "list_all (\<lambda>k. k \<notin> set objectPrototypeNames)
             (resourceIds (filteredEvents analyticsEvents args now))"
  shows "sorted_wrt (\<lambda>a b. number_of (interactions b) \<le> number_of (interactions a))
           (popularItems engine analyticsEvents args now)"
proof -
  have "sorted_wrt (\<lambda>a b. number_of (snd b) \<le> number_of (snd a))
          (map (\<lambda>it. (item_resourceId it, interactions it))
             (popularItems engine analyticsEvents args now))"
    unfolding popularItems_pairs sortByCount_numbers [OF entries_numbers [OF assms]]
    by (rule sorted_wrt_take_prefix) (rule sort_key_descending)
  then show ?thesis by (simp add: sorted_wrt_map)
qed

lemma popularItems_ties:
  assumes "list_all (\<lambda>k. k \<notin> set objectPrototypeNames)
             (resourceIds (filteredEvents analyticsEvents args now))"
  shows "prefix (filter (\<lambda>(rid, c). c = Number n)
             (map (\<lambda>it. (item_resourceId it, interactions it))
                (popularItems engine analyticsEvents args now)))
          (filter (\<lambda>(rid, c). c = Number n)
             (Object_entries (countInteractions (filteredEvents analyticsEvents args now))))"
proof -
  let ?entries = "Object_entries (countInteractions (filteredEvents analyticsEvents args now))"
  let ?key = "\<lambda>(rid :: string, c :: tally_count). - int (number_of c)"
  have numbers: "\<forall>e\<in>set ?entries. is_number (snd e)"
    using entries_numbers [OF assms] by (auto simp: list_all_iff)
  have same: "filter (\<lambda>(rid, c). c = Number n) es = filter (\<lambda>y. ?key y = - int n) es"
    if "\<forall>e\<in>set es. is_number (snd e)" for es :: "(string \<times> tally_count) list"
  proof (rule filter_cong [OF refl])
    fix e assume "e \<in> set es"
    with that have "is_number (snd e)" by blast
    then show "(case e of (rid, c) \<Rightarrow> c = Number n) = (?key e = - int n)"
      by (cases e; cases "snd e") auto
  qed
  have "filter (\<lambda>(rid, c). c = Number n) (sort_key ?key ?entries) =
        filter (\<lambda>y. ?key y = - int n) (sort_key ?key ?entries)"
    by (rule same) (use numbers in simp)
  also have "\<dots> = filter (\<lambda>y. ?key y = - int n) ?entries"
    by (rule sort_key_stable)
  also have "\<dots> = filter (\<lambda>(rid, c). c = Number n) ?entries"
    by (rule same [symmetric]) (rule numbers)
  finally have stable: "filter (\<lambda>(rid, c). c = Number n) (sort_key ?key ?entries) =
                        filter (\<lambda>(rid, c). c = Number n) ?entries" .
  have "prefix (filter (\<lambda>(rid, c). c = Number n) (take m (sort_key ?key ?entries)))
               (filter (\<lambda>(rid, c). c = Number n) (sort_key ?key ?entries))" for m
    by (rule filter_mono_prefix) (rule take_is_prefix)
  then show ?thesis
    unfolding popularItems_pairs sortByCount_numbers [OF entries_numbers [OF assms]] stable .
qed

lemma popularItems_length:
  "length (popularItems engine analyticsEvents args now) \<le>
     (case limit args of None \<Rightarrow> 10 | Some n \<Rightarrow> if n = 0 then 10 else n)"
  by (simp add: popularItems_def Let_def)

text \<open>
  Claim C8, as the handler has it: for a query none of whose counted identifiers names a
  property of \<open>Object.prototype\<close>, every count is a number, the popular items are in
  descending order of interaction count, and the items of any one count stand in the
  order in which the tally enumerates its entries, of which the result is cut off after
  the limit. The tally holds each counted identifier once, with the number of its
  interactions, in the order of the identifiers' first interactions (\<open>Object_entries\<close>
  moves identifiers that are array indices to the front). No timestamp takes part in the
  order.
\<close>

theorem popularItems_order:
  assumes "list_all (\<lambda>k. k \<notin> set objectPrototypeNames)
             (resourceIds (filteredEvents analyticsEvents args now))"
  shows "list_all (\<lambda>it. is_number (interactions it))
           (popularItems engine analyticsEvents args now) \<and>
   sorted_wrt (\<lambda>a b. number_of (interactions b) \<le> number_of (interactions a))
     (popularItems engine analyticsEvents args now) \<and>
   prefix (filter (\<lambda>(rid, c). c = Number n)
             (map (\<lambda>it. (item_resourceId it, interactions it))
                (popularItems engine analyticsEvents args now)))
          (filter (\<lambda>(rid, c). c = Number n)
             (Object_entries (countInteractions (filteredEvents analyticsEvents args now)))) \<and>
   countInteractions (filteredEvents analyticsEvents args now) =
     map (\<lambda>k. (k, Number (count_list (resourceIds (filteredEvents analyticsEvents args now)) k)))
       (rev (remdups (rev (resourceIds (filteredEvents analyticsEvents args now)))))"
  using popularItems_numbers [OF assms] popularItems_descending [OF assms]
    popularItems_ties [OF assms] countInteractions_tally [OF assms]
  by blast

theorem popularItems_order_witness:
  "list_all (\<lambda>k. k \<notin> set objectPrototypeNames)
     (resourceIds (filteredEvents
        (log_of [(''p2'', 500), (''p1'', 1000), (''p1'', 2000), (''p1'', 4000)])
        all_projects 5000)) \<and>
   popularItems engine_keeps
     (log_of [(''p2'', 500), (''p1'', 1000), (''p1'', 2000), (''p1'', 4000)])
     all_projects 5000 =
     [\<lparr> item_resourceId = ''p1'', interactions = Number 3, lastInteraction = Some 4000 \<rparr>,
      \<lparr> item_resourceId = ''p2'', interactions = Number 1, lastInteraction = Some 500 \<rparr>]"
proof -
  have plain: "list_all (\<lambda>k. k \<notin> set objectPrototypeNames)
     (resourceIds (filteredEvents
        (log_of [(''p2'', 500), (''p1'', 1000), (''p1'', 2000), (''p1'', 4000)])
        all_projects 5000))"
    by code_simp
  have "popularItems engine_keeps
          (log_of [(''p2'', 500), (''p1'', 1000), (''p1'', 2000), (''p1'', 4000)])
          all_projects 5000 =
          [\<lparr> item_resourceId = ''p1'', interactions = Number 3, lastInteraction = Some 4000 \<rparr>,
           \<lparr> item_resourceId = ''p2'', interactions = Number 1, lastInteraction = Some 500 \<rparr>]"
    by code_simp
  with plain popularItems_order [OF plain, of engine_keeps 3]
  show ?thesis by simp
qed

text \<open>
  Against claim C8 as stated: after one view of \<open>p1\<close> and a later one of \<open>p2\<close> the
  two items have equal counts and \<open>p1\<close> stands first, although the most recent
  interaction of \<open>p2\<close> is the later one.
\<close>

theorem popularItems_ties_counterexample:
  "popularItems engine_keeps (log_of [(''p1'', 1000), (''p2'', 2000)]) all_projects 5000 =
     [\<lparr> item_resourceId = ''p1'', interactions = Number 1, lastInteraction = Some 1000 \<rparr>,
      \<lparr> item_resourceId = ''p2'', interactions = Number 1, lastInteraction = Some 2000 \<rparr>]"
  by code_simp

text \<open>
  Identifiers that name a property of \<open>Object.prototype\<close>: \<open>__proto__\<close> is never
  counted, and \<open>constructor\<close> is counted by a string that grows by a \<open>1\<close> with each
  event. With such a count among the entries the order of the items is the engine's.
\<close>

lemma countInteractions_proto:
  "countInteractions (log_of [(''__proto__'', 1000), (''p1'', 2000)]) = [(''p1'', Number 1)]"
  by code_simp

lemma countInteractions_constructor:
  "countInteractions (log_of [(''constructor'', 1000), (''p1'', 2000), (''constructor'', 3000)]) =
     [(''constructor'', Text ''function Object() { [native code] }11''), (''p1'', Number 1)]"
  by code_simp

lemma popularItems_engine_order:
  "popularItems engine
     (log_of [(''p1'', 1000), (''constructor'', 2000), (''p2'', 3000), (''p2'', 4000)])
     all_projects 5000 =
   map (\<lambda>(rid, c). \<lparr> item_resourceId = rid, interactions = c,
          lastInteraction = lastInteractionOf
            (log_of [(''p1'', 1000), (''constructor'', 2000), (''p2'', 3000), (''p2'', 4000)]) rid \<rparr>)
     (take 10 (engine [(''p1'', Number 1),
                       (''constructor'', Text ''function Object() { [native code] }1''),
                       (''p2'', Number 2)]))"
proof -
  have events: "filteredEvents
      (log_of [(''p1'', 1000), (''constructor'', 2000), (''p2'', 3000), (''p2'', 4000)])
      all_projects 5000 =
      log_of [(''p1'', 1000), (''constructor'', 2000), (''p2'', 3000), (''p2'', 4000)]"
    by code_simp
  have entries: "Object_entries (countInteractions
      (log_of [(''p1'', 1000), (''constructor'', 2000), (''p2'', 3000), (''p2'', 4000)])) =
      [(''p1'', Number 1),
       (''constructor'', Text ''function Object() { [native code] }1''),
       (''p2'', Number 2)]"
    by code_simp
  have ten: "limit all_projects = Some 10"
    by (simp add: all_projects_def)
  show ?thesis
    by (simp add: popularItems_def Let_def events entries sortByCount_def ten)
qed

section \<open>Properties of the export\<close>

text \<open>The heap after \<open>export_portfolio\<close>, and after the sibling \<open>get_contact_info\<close>.\<close>

lemma exportPortfolio_heap:
  "h portfolioData = Some (PortfolioObject p) \<Longrightarrow> h (contact p) = Some (ContactObject c) \<Longrightarrow>
   snd (exportPortfolio stringify generateMarkdownExport args portfolioData h) =
     (if \<not> includePrivate args \<and> truthy (phone c)
      then h(contact p \<mapsto> ContactObject (c\<lparr> phone := None \<rparr>)) else h)"
  by (simp add: exportPortfolio_def Let_def split: option.splits)

lemma getContactInfo_heap: "snd (getContactInfo includePrivateArg contactInfo h) = h"
  by (simp add: getContactInfo_def split: option.splits heap_object.splits)

text \<open>
  Claim C9. An export is to leave the dataset as it was. \<open>export_portfolio\<close> without
  \<open>includePrivate\<close> deletes the phone from the contact object its shallow copy shares
  with the dataset: on the sample heap the contact object at address 3 has lost its phone
  after the call. The sibling handler \<open>get_contact_info\<close> deletes it from a copy of the
  contact object and leaves the heap unchanged.
\<close>

theorem exportPortfolio_deletes_phone:
  "sample_heap 3 = Some (ContactObject sample_contact) \<and>
   phone sample_contact = Some ''555-0100'' \<and>
   snd (exportPortfolio stringify generateMarkdownExport default_export 0 sample_heap) 3 =
     Some (ContactObject (sample_contact\<lparr> phone := None \<rparr>)) \<and>
   snd (getContactInfo False 3 sample_heap) 3 = Some (ContactObject sample_contact)"
  by (simp add: exportPortfolio_heap [where p = "\<lparr> title = ''Portfolio'', description = ''Design & code'',
                              skills = 1, projects = 2, contact = 3 \<rparr>" and c = sample_contact]
       getContactInfo_heap sample_heap_def default_export_def truthy_def sample_contact_def)

text \<open>What the two format functions write, part by part.\<close>

lemma sublist_concat: "x \<in> set xs \<Longrightarrow> sublist x (concat xs)"
  by (auto simp: in_set_conv_decomp)

lemma sublist_join: "row \<in> set rows \<Longrightarrow> sublist row (join sep rows)"
proof (induction sep rows rule: join.induct)
  case (3 sep x y ys)
  then show ?case
    by (auto simp: sublist_append)
qed auto

lemma sublist_in_join:
  "row \<in> set rows \<Longrightarrow> sublist v row \<Longrightarrow> sublist v (join sep rows)"
  using sublist_join sublist_order.order_trans by blast

lemma sublist_field: "sublist v (join sep (a # v # rest))"
  by (cases rest) (auto simp: sublist_append)

lemma sublist_field4: "sublist v (join sep (a # b # c # v # rest))"
  by (cases rest) (auto simp: sublist_append)

lemma csv_skill_row:
  assumes "skill \<in> set (skills d)"
  shows "sublist (dq @ skill_name skill @ dq) (generateCSVExport d)"
    and "sublist (dq @ skill_description skill @ dq) (generateCSVExport d)"
  using assms
  by (auto simp: generateCSVExport_def Let_def intro!: sublist_in_join [where row = "join '','' [''Skill'', dq @ skill_name skill @ dq, skill_category skill,
                    dq @ skill_description skill @ dq, [], skill_level skill]"] sublist_field sublist_field4)

lemma csv_project_row:
  assumes "project \<in> set (projects d)"
  shows "sublist (dq @ project_title project @ dq) (generateCSVExport d)"
    and "sublist (dq @ project_shortDescription project @ dq) (generateCSVExport d)"
  using assms
  by (auto simp: generateCSVExport_def Let_def intro!: sublist_in_join [where row = "join '',''
                   [''Project'', dq @ project_title project @ dq, project_category project,
                    dq @ project_shortDescription project @ dq,
                    show_int (project_year project), project_status project]"] sublist_field sublist_field4)

lemma xml_skills_part: "sublist (concat (map skill_xml (skills d))) (generateXMLExport d)"
  unfolding generateXMLExport_def sublist_def
  by (rule exI [of _ "''<?xml version='' @ dq @ ''1.0'' @ dq @ '' encoding='' @ dq @ ''UTF-8'' @ dq @
       ''?>\<newline>'' @ ''<portfolio>\<newline>'' @
       ''  <title>'' @ title d @ ''</title>\<newline>'' @
       ''  <description>'' @ description d @ ''</description>\<newline>'' @
       ''  <skills>\<newline>'' @ ''    ''"]) auto

lemma xml_projects_part: "sublist (concat (map project_xml (projects d))) (generateXMLExport d)"
  unfolding generateXMLExport_def sublist_def
  by (rule exI [of _ "''<?xml version='' @ dq @ ''1.0'' @ dq @ '' encoding='' @ dq @ ''UTF-8'' @ dq @
       ''?>\<newline>'' @ ''<portfolio>\<newline>'' @
       ''  <title>'' @ title d @ ''</title>\<newline>'' @
       ''  <description>'' @ description d @ ''</description>\<newline>'' @
       ''  <skills>\<newline>'' @ ''    '' @ concat (map skill_xml (skills d)) @ ''\<newline>'' @
       ''  </skills>\<newline>'' @ ''  <projects>\<newline>'' @ ''    ''"]) auto

lemma xml_title: "sublist (''<title>'' @ title d @ ''</title>'') (generateXMLExport d)"
  unfolding generateXMLExport_def sublist_def
  by (rule exI [of _ "''<?xml version='' @ dq @ ''1.0'' @ dq @ '' encoding='' @ dq @ ''UTF-8'' @ dq @
       ''?>\<newline>'' @ ''<portfolio>\<newline>'' @ ''  ''"]) auto

lemma xml_description:
  "sublist (''<description>'' @ description d @ ''</description>'') (generateXMLExport d)"
  unfolding generateXMLExport_def sublist_def
  by (rule exI [of _ "''<?xml version='' @ dq @ ''1.0'' @ dq @ '' encoding='' @ dq @ ''UTF-8'' @ dq @
       ''?>\<newline>'' @ ''<portfolio>\<newline>'' @
       ''  <title>'' @ title d @ ''</title>\<newline>'' @ ''  ''"]) auto

lemma skill_xml_name: "sublist (''<name>'' @ skill_name skill @ ''</name>'') (skill_xml skill)"
  unfolding skill_xml_def sublist_def
  by (rule exI [of _ "''\<newline>    <skill>\<newline>      ''"]) auto

lemma skill_xml_description:
  "sublist (''<description>'' @ skill_description skill @ ''</description>'') (skill_xml skill)"
  unfolding skill_xml_def sublist_def
  by (rule exI [of _ "''\<newline>    <skill>\<newline>'' @
     ''      <name>'' @ skill_name skill @ ''</name>\<newline>'' @
     ''      <category>'' @ skill_category skill @ ''</category>\<newline>'' @
     ''      <level>'' @ skill_level skill @ ''</level>\<newline>'' @
     ''      <proficiency>'' @ show_int (skill_proficiency skill) @ ''</proficiency>\<newline>'' @
     ''      ''"]) auto

lemma project_xml_title:
  "sublist (''<title>'' @ project_title project @ ''</title>'') (project_xml project)"
  unfolding project_xml_def sublist_def
  by (rule exI [of _ "''\<newline>    <project>\<newline>      ''"]) auto

lemma project_xml_description:
  "sublist (''<description>'' @ project_description project @ ''</description>'')
     (project_xml project)"
  unfolding project_xml_def sublist_def
  by (rule exI [of _ "''\<newline>    <project>\<newline>'' @
     ''      <title>'' @ project_title project @ ''</title>\<newline>'' @
     ''      <category>'' @ project_category project @ ''</category>\<newline>'' @
     ''      <year>'' @ show_int (project_year project) @ ''</year>\<newline>'' @
     ''      ''"]) auto

lemma xml_skill:
  assumes "skill \<in> set (skills d)" and "sublist v (skill_xml skill)"
  shows "sublist v (generateXMLExport d)"
proof -
  from assms(1) have "sublist (skill_xml skill) (concat (map skill_xml (skills d)))"
    by (intro sublist_concat) simp
  with assms(2) have "sublist v (concat (map skill_xml (skills d)))"
    by (rule sublist_order.order_trans)
  then show ?thesis
    using xml_skills_part by (rule sublist_order.order_trans)
qed

lemma xml_project:
  assumes "project \<in> set (projects d)" and "sublist v (project_xml project)"
  shows "sublist v (generateXMLExport d)"
proof -
  from assms(1) have "sublist (project_xml project) (concat (map project_xml (projects d)))"
    by (intro sublist_concat) simp
  with assms(2) have "sublist v (concat (map project_xml (projects d)))"
    by (rule sublist_order.order_trans)
  then show ?thesis
    using xml_projects_part by (rule sublist_order.order_trans)
qed

text \<open>
  Claim C10, as the format functions have it. They have no failing branch. For empty
  collections the CSV export is the header line alone and the XML export is the document
  with empty \<open>skills\<close> and \<open>projects\<close> elements. Every name, title and description
  appears in the output unchanged, whatever characters it holds: in the CSV export between
  two double quotes, in the XML export between its tags. Nothing is dropped, and nothing
  is escaped.
\<close>

theorem export_formats_verbatim:
  "generateCSVExport (d\<lparr> skills := [], projects := [] \<rparr>) =
     ''Type,Name,Category,Description,Year,Status'' \<and>
   generateXMLExport (d\<lparr> skills := [], projects := [] \<rparr>) =
     ''<?xml version='' @ dq @ ''1.0'' @ dq @ '' encoding='' @ dq @ ''UTF-8'' @ dq @ ''?>\<newline>'' @
     ''<portfolio>\<newline>'' @
     ''  <title>'' @ title d @ ''</title>\<newline>'' @
     ''  <description>'' @ description d @ ''</description>\<newline>'' @
     ''  <skills>\<newline>'' @
     ''    \<newline>'' @
     ''  </skills>\<newline>'' @
     ''  <projects>\<newline>'' @
     ''    \<newline>'' @
     ''  </projects>\<newline>'' @
     ''</portfolio>'' \<and>
   sublist (''<title>'' @ title d @ ''</title>'') (generateXMLExport d) \<and>
   sublist (''<description>'' @ description d @ ''</description>'') (generateXMLExport d) \<and>
   (\<forall>skill \<in> set (skills d).
      sublist (dq @ skill_name skill @ dq) (generateCSVExport d) \<and>
      sublist (dq @ skill_description skill @ dq) (generateCSVExport d) \<and>
      sublist (''<name>'' @ skill_name skill @ ''</name>'') (generateXMLExport d) \<and>
      sublist (''<description>'' @ skill_description skill @ ''</description>'')
        (generateXMLExport d)) \<and>
   (\<forall>project \<in> set (projects d).
      sublist (dq @ project_title project @ dq) (generateCSVExport d) \<and>
      sublist (dq @ project_shortDescription project @ dq) (generateCSVExport d) \<and>
      sublist (''<title>'' @ project_title project @ ''</title>'') (generateXMLExport d) \<and>
      sublist (''<description>'' @ project_description project @ ''</description>'')
        (generateXMLExport d))"
proof -
  have "generateCSVExport (d\<lparr> skills := [], projects := [] \<rparr>) =
          ''Type,Name,Category,Description,Year,Status''"
    by (simp add: generateCSVExport_def)
  moreover have "generateXMLExport (d\<lparr> skills := [], projects := [] \<rparr>) =
     ''<?xml version='' @ dq @ ''1.0'' @ dq @ '' encoding='' @ dq @ ''UTF-8'' @ dq @ ''?>\<newline>'' @
     ''<portfolio>\<newline>'' @
     ''  <title>'' @ title d @ ''</title>\<newline>'' @
     ''  <description>'' @ description d @ ''</description>\<newline>'' @
     ''  <skills>\<newline>'' @
     ''    \<newline>'' @
     ''  </skills>\<newline>'' @
     ''  <projects>\<newline>'' @
     ''    \<newline>'' @
     ''  </projects>\<newline>'' @
     ''</portfolio>''"
    by (simp add: generateXMLExport_def)
  moreover have "sublist (''<title>'' @ title d @ ''</title>'') (generateXMLExport d)"
    by (rule xml_title)
  moreover have
    "sublist (''<description>'' @ description d @ ''</description>'') (generateXMLExport d)"
    by (rule xml_description)
  moreover have "\<forall>skill \<in> set (skills d).
      sublist (dq @ skill_name skill @ dq) (generateCSVExport d) \<and>
      sublist (dq @ skill_description skill @ dq) (generateCSVExport d) \<and>
      sublist (''<name>'' @ skill_name skill @ ''</name>'') (generateXMLExport d) \<and>
      sublist (''<description>'' @ skill_description skill @ ''</description>'')
        (generateXMLExport d)"
    using csv_skill_row xml_skill skill_xml_name skill_xml_description by blast
  moreover have "\<forall>project \<in> set (projects d).
      sublist (dq @ project_title project @ dq) (generateCSVExport d) \<and>
      sublist (dq @ project_shortDescription project @ dq) (generateCSVExport d) \<and>
      sublist (''<title>'' @ project_title project @ ''</title>'') (generateXMLExport d) \<and>
      sublist (''<description>'' @ project_description project @ ''</description>'')
        (generateXMLExport d)"
    using csv_project_row xml_project project_xml_title project_xml_description by blast
  ultimately show ?thesis by blast
qed

theorem export_formats_verbatim_witness:
  "quoted_skill \<in> set (skills sample_data) \<and>
   rd_project \<in> set (projects sample_data) \<and>
   sublist (dq @ ''Logo '' @ dq @ ''Mark'' @ dq @ dq) (generateCSVExport sample_data) \<and>
   sublist (''<name>Logo '' @ dq @ ''Mark'' @ dq @ ''</name>'') (generateXMLExport sample_data) \<and>
   sublist (dq @ ''R&D <site>'' @ dq) (generateCSVExport sample_data) \<and>
   sublist ''<title>R&D <site></title>'' (generateXMLExport sample_data) \<and>
   generateCSVExport (sample_data\<lparr> skills := [], projects := [] \<rparr>) =
     ''Type,Name,Category,Description,Year,Status''"
  using export_formats_verbatim [of sample_data]
  by (simp add: sample_data_def quoted_skill_def rd_project_def)

text \<open>
  Against claim C10 as stated: a skill name with double quotes and a project title with an
  ampersand and angle brackets. The CSV export writes the name between quotes without
  doubling the quotes inside it, and the XML export writes the title as it is; the quoted
  form of the name and the escaped form of the title occur nowhere in the outputs.
\<close>

theorem export_formats_escape_counterexample:
  "generateCSVExport sample_data =
     ''Type,Name,Category,Description,Year,Status\<newline>'' @
     ''Skill,'' @ dq @ ''Logo '' @ dq @ ''Mark'' @ dq @ dq @ '',adobe,'' @
       dq @ ''Vector, print'' @ dq @ '',,advanced\<newline>'' @
     ''Project,'' @ dq @ ''R&D <site>'' @ dq @ '',web-design,'' @
       dq @ ''Research & design'' @ dq @ '',2024,published'' \<and>
   \<not> sublist (csv_quoted (skill_name quoted_skill)) (generateCSVExport sample_data) \<and>
   sublist ''<title>R&D <site></title>'' (generateXMLExport sample_data) \<and>
   \<not> sublist (xml_escaped (project_title rd_project)) (generateXMLExport sample_data)"
  by code_simp

end
